theory Spec2Isabelle
  imports Complex_Main "HOL-Library.AList"
begin

section \<open>Strings\<close>

text \<open>
  Python strings are modelled as Isabelle strings; the model covers text whose characters
  are ASCII (token symbols, addresses, harness marker lines). \<open>str.lower\<close> and
  \<open>str.upper\<close> map the 26 ASCII letters and leave every other character unchanged.
\<close>

definition lower_char :: "char \<Rightarrow> char" where
  "lower_char c =
     (let n = (of_char c :: nat) in if 65 \<le> n \<and> n \<le> 90 then char_of (n + 32) else c)"

definition upper_char :: "char \<Rightarrow> char" where
  "upper_char c =
     (let n = (of_char c :: nat) in if 97 \<le> n \<and> n \<le> 122 then char_of (n - 32) else c)"

definition lower :: "string \<Rightarrow> string" where
  "lower s = map lower_char s"

definition upper :: "string \<Rightarrow> string" where
  "upper s = map upper_char s"

section \<open>Token registry (pricing/tokens.py)\<close>

record TokenInfo =
  address :: string
  symbol :: string
  decimals :: nat
  name :: string
  is_stablecoin :: bool
  is_wrapped_native :: bool
  coingecko_id :: "string option"
  chainlink_feed :: "string option"

definition mk_token ::
  "string \<Rightarrow> string \<Rightarrow> nat \<Rightarrow> string \<Rightarrow> bool \<Rightarrow> bool \<Rightarrow> string option \<Rightarrow> string option \<Rightarrow> TokenInfo" where
  "mk_token a s d n st w cg cl =
     \<lparr>address = a, symbol = s, decimals = d, name = n, is_stablecoin = st,
      is_wrapped_native = w, coingecko_id = cg, chainlink_feed = cl\<rparr>"

text \<open>\<open>TokenRegistry.TOKENS\<close>: per chain, the dictionary in its insertion order.\<close>

definition TOKENS :: "int \<Rightarrow> (string \<times> TokenInfo) list" where
  "TOKENS chain =
    (if chain = 1 then
      [(''ETH'', mk_token ''0x0000000000000000000000000000000000000000'' ''ETH'' 18 ''Ethereum''
          False False (Some ''ethereum'') (Some ''0x5f4eC3Df9cbd43714FE2740f5E3616155c5b8419'')),
       (''WETH'', mk_token ''0xC02aaA39b223FE8D0A0e5C4F27eAD9083C756Cc2'' ''WETH'' 18 ''Wrapped Ethereum''
          False True (Some ''ethereum'') (Some ''0x5f4eC3Df9cbd43714FE2740f5E3616155c5b8419'')),
       (''USDC'', mk_token ''0xA0b86a33E6441d00C9dab2B1DC7Be85c39Ad'' ''USDC'' 6 ''USD Coin''
          True False (Some ''usd-coin'') (Some ''0x8fFfFfd4AfB6115b954Bd326cbe7B4BA576818f6'')),
       (''USDT'', mk_token ''0xdAC17F958D2ee523a2206206994597C13D831ec7'' ''USDT'' 6 ''Tether USD''
          True False (Some ''tether'') (Some ''0x3E7d1eAB13ad0104d2750B8863b489D65364e32D'')),
       (''DAI'', mk_token ''0x6B175474E89094C44Da98b954EedeAC495271d0F'' ''DAI'' 18 ''Dai Stablecoin''
          True False (Some ''dai'') (Some ''0xAed0c38402d20D9df45C7C74C061f3f8a1e9e8D1'')),
       (''WBTC'', mk_token ''0x2260FAC5E5542a773Aa44fBCfeDf7C193bc2C599'' ''WBTC'' 8 ''Wrapped Bitcoin''
          False False (Some ''wrapped-bitcoin'') (Some ''0xF4030086522a5bEEa4988F8cA5B36dbC97BeE88c'')),
       (''UNI'', mk_token ''0x1f9840a85d5aF5bf1D1762F925BDADdC4201F984'' ''UNI'' 18 ''Uniswap''
          False False (Some ''uniswap'') (Some ''0x553303d460EE0afB37EdFf9bE42922D8FF63220e'')),
       (''COMP'', mk_token ''0xc00e94Cb662C3520282E6f5717214004A7f26888'' ''COMP'' 18 ''Compound''
          False False (Some ''compound-governance-token'') (Some ''0xdbd020CAeF83eFd542f4De03e3cF0C28A4428bd5'')),
       (''stETH'', mk_token ''0xae7ab96520DE3A18E5e111B5EaAb095312D7fE84'' ''stETH'' 18 ''Lido Staked ETH''
          False False (Some ''staked-ether'') (Some ''0xCfE54B5cD566aB89272946F602D76Ea879CAb4a8'')),
       (''UERII'', mk_token ''0x418C24191aE947A78C99fDc0e45a1f96Afb254BE'' ''UERII'' 6 ''UERII Token''
          False False (Some ''uerii'') None)]
     else if chain = 56 then
      [(''BNB'', mk_token ''0x0000000000000000000000000000000000000000'' ''BNB'' 18 ''Binance Coin''
          False False (Some ''binancecoin'') (Some ''0x0567F2323251f0Aab15c8dFb1967E4e8A7D42aeE'')),
       (''WBNB'', mk_token ''0xbb4CdB9CBd36B01bD1cBaEBF2De08d9173bc095c'' ''WBNB'' 18 ''Wrapped BNB''
          False True (Some ''binancecoin'') (Some ''0x0567F2323251f0Aab15c8dFb1967E4e8A7D42aeE'')),
       (''USDT'', mk_token ''0x55d398326f99059fF775485246999027B3197955'' ''USDT'' 18 ''Tether USD''
          True False (Some ''tether'') (Some ''0xB97Ad0E74fa7d920791E90258A6E2085088b4320'')),
       (''BUSD'', mk_token ''0xe9e7CEA3DedcA5984780Bafc599bD69ADd087D56'' ''BUSD'' 18 ''Binance USD''
          True False (Some ''binance-usd'') (Some ''0xcBb98864Ef56E9042e7d2efef76141f15731B82f'')),
       (''CAKE'', mk_token ''0x0E09FaBB73Bd3Ade0a17ECC321fD13a19e81cE82'' ''CAKE'' 18 ''PancakeSwap Token''
          False False (Some ''pancakeswap-token'') (Some ''0xB6064eD41d4f67e353768aA239cA86f4F73665a1''))]
     else [])"

definition get_token_info :: "int \<Rightarrow> string \<Rightarrow> TokenInfo option" where
  "get_token_info chain symb = map_of (TOKENS chain) (upper symb)"

definition get_token_by_address :: "int \<Rightarrow> string \<Rightarrow> TokenInfo option" where
  "get_token_by_address chain addr =
     find (\<lambda>t. lower (address t) = lower addr) (map snd (TOKENS chain))"

definition get_base_currency :: "int \<Rightarrow> string" where
  "get_base_currency chain =
     (if chain = 1 then ''ETH'' else if chain = 56 then ''BNB'' else ''ETH'')"

definition is_native_token :: "int \<Rightarrow> string \<Rightarrow> bool" where
  "is_native_token chain addr =
     (lower addr \<in> set [''0x0000000000000000000000000000000000000000'',
                         ''0xeeeeeeeeeeeeeeeeeeeeeeeeeeeeeeeeeeeeeeee''])"

definition get_native_token_info :: "int \<Rightarrow> TokenInfo option" where
  "get_native_token_info chain = get_token_info chain (get_base_currency chain)"

section \<open>Balance invariant validator (pricing/balance_validator.py)\<close>

text \<open>
  Balances are Python floats; the model takes them as real numbers, so comparison and
  subtraction are exact. A balance-change dictionary is read with \<open>dict.get\<close> and a default,
  so each key may be absent.
\<close>

record balance_change_dict =
  token :: "string option"
  initial :: "real option"
  final :: "real option"
  net_change :: "real option"

record BalanceInvariantViolation =
  v_token_symbol :: string
  v_token_address :: string
  v_initial_balance :: real
  v_final_balance :: real
  violation_amount :: real
  v_chain_id :: int
  violation_type :: string

definition dict_get :: "'a option \<Rightarrow> 'a \<Rightarrow> 'a" where
  "dict_get field dflt = (case field of None \<Rightarrow> dflt | Some v \<Rightarrow> v)"

definition PAPER_INITIAL_BALANCES :: "int \<Rightarrow> (string \<times> real) list" where
  "PAPER_INITIAL_BALANCES chain =
     (if chain = 1 then
        [(''ETH'', 100000), (''WETH'', 100000), (''USDC'', 10000000),
         (''USDT'', 10000000), (''DAI'', 10000000)]
      else if chain = 56 then
        [(''BNB'', 100000), (''WBNB'', 100000), (''USDT'', 10000000), (''BUSD'', 10000000)]
      else [])"

definition token_address_of :: "int \<Rightarrow> string \<Rightarrow> string" where
  "token_address_of chain symb =
     (case get_token_info chain symb of None \<Rightarrow> [] | Some info \<Rightarrow> address info)"

text \<open>The body of the loop of \<open>validate_balance_invariant\<close>: the violations one change appends.\<close>

definition invariant_step :: "int \<Rightarrow> balance_change_dict \<Rightarrow> BalanceInvariantViolation list" where
  "invariant_step chain change =
     (let token_symbol = dict_get (token change) ''UNKNOWN'';
          initial_balance = dict_get (initial change) 0;
          final_balance = dict_get (final change) 0
      in (if final_balance < initial_balance then
            [\<lparr>v_token_symbol = token_symbol,
              v_token_address = token_address_of chain token_symbol,
              v_initial_balance = initial_balance,
              v_final_balance = final_balance,
              violation_amount = initial_balance - final_balance,
              v_chain_id = chain,
              violation_type = ''depletion''\<rparr>]
          else [])
         @
         (if final_balance < 0 then
            [\<lparr>v_token_symbol = token_symbol,
              v_token_address = token_address_of chain token_symbol,
              v_initial_balance = initial_balance,
              v_final_balance = final_balance,
              violation_amount = \<bar>final_balance\<bar>,
              v_chain_id = chain,
              violation_type = ''negative_balance''\<rparr>]
          else []))"

fun invariant_loop ::
  "int \<Rightarrow> balance_change_dict list \<Rightarrow> BalanceInvariantViolation list \<Rightarrow> BalanceInvariantViolation list" where
  "invariant_loop chain [] violations = violations"
| "invariant_loop chain (change # rest) violations =
     invariant_loop chain rest (violations @ invariant_step chain change)"

definition validate_balance_invariant ::
  "balance_change_dict list \<Rightarrow> int \<Rightarrow> bool \<times> BalanceInvariantViolation list" where
  "validate_balance_invariant balance_changes chain =
     (let violations = invariant_loop chain balance_changes []
      in (length violations = 0, violations))"

text \<open>
  The body of the loop of \<open>validate_paper_compliance\<close>. The deviation of the initial balance
  from the table is only logged, so it leaves no trace in the result.
\<close>

definition paper_step :: "int \<Rightarrow> balance_change_dict \<Rightarrow> BalanceInvariantViolation list" where
  "paper_step chain change =
     (let token_symbol = dict_get (token change) ''UNKNOWN'';
          final_balance = dict_get (final change) 0
      in case map_of (PAPER_INITIAL_BALANCES chain) token_symbol of
           None \<Rightarrow> []
         | Some expected_initial \<Rightarrow>
             (if final_balance < expected_initial then
                [\<lparr>v_token_symbol = token_symbol,
                  v_token_address = token_address_of chain token_symbol,
                  v_initial_balance = expected_initial,
                  v_final_balance = final_balance,
                  violation_amount = expected_initial - final_balance,
                  v_chain_id = chain,
                  violation_type = ''insufficient_funds''\<rparr>]
              else []))"

fun paper_loop ::
  "int \<Rightarrow> balance_change_dict list \<Rightarrow> BalanceInvariantViolation list \<Rightarrow> BalanceInvariantViolation list" where
  "paper_loop chain [] violations = violations"
| "paper_loop chain (change # rest) violations =
     paper_loop chain rest (violations @ paper_step chain change)"

definition validate_paper_compliance ::
  "balance_change_dict list \<Rightarrow> int \<Rightarrow> bool \<times> BalanceInvariantViolation list" where
  "validate_paper_compliance balance_changes chain =
     (let violations = paper_loop chain balance_changes []
      in (length violations = 0, violations))"

section \<open>Price cache (pricing/cache.py)\<close>

record PriceCacheEntry =
  e_price_usd :: real
  e_timestamp :: int
  e_block_number :: "int option"
  e_chain_id :: int
  e_token_symbol :: string
  e_source :: string
  e_confidence :: real
  cached_at :: real

text \<open>
  The cache object: the in-memory dictionary and, per chain, the JSON file on disk (an absent
  file reads as the empty dictionary). Loading and saving swallow their exceptions, so an
  unreadable disk loads as empty and an unwritable one keeps its contents.
\<close>

record PriceCache =
  max_age_seconds :: real
  memory_cache :: "string \<rightharpoonup> PriceCacheEntry"
  disk_files :: "int \<Rightarrow> (string \<rightharpoonup> PriceCacheEntry)"
  disk_readable :: bool
  disk_writable :: bool

definition digit_char :: "nat \<Rightarrow> char" where
  "digit_char d = char_of (48 + d)"

fun str_nat :: "nat \<Rightarrow> string" where
  "str_nat n = (if n < 10 then [digit_char n] else str_nat (n div 10) @ [digit_char (n mod 10)])"

declare str_nat.simps [simp del]

definition str_int :: "int \<Rightarrow> string" where
  "str_int i = (if i < 0 then CHR ''-'' # str_nat (nat (- i)) else str_nat (nat i))"

text \<open>\<open>if block_number:\<close> is false for \<open>None\<close> and for 0.\<close>

definition truthy_int :: "int option \<Rightarrow> bool" where
  "truthy_int b = (case b of None \<Rightarrow> False | Some n \<Rightarrow> n \<noteq> 0)"

text \<open>\<open>_get_cache_key\<close>: the block number is formatted only when it is truthy.\<close>

definition get_cache_key :: "int \<Rightarrow> string \<Rightarrow> int option \<Rightarrow> string" where
  "get_cache_key chain symb blk =
     (case blk of
        Some n \<Rightarrow>
          if truthy_int blk
          then str_int chain @ ''_'' @ symb @ ''_'' @ str_int n
          else str_int chain @ ''_'' @ symb @ ''_latest''
      | None \<Rightarrow> str_int chain @ ''_'' @ symb @ ''_latest'')"

definition load_disk_cache :: "PriceCache \<Rightarrow> int \<Rightarrow> (string \<rightharpoonup> PriceCacheEntry)" where
  "load_disk_cache cache chain = (if disk_readable cache then disk_files cache chain else Map.empty)"

definition save_disk_cache :: "PriceCache \<Rightarrow> int \<Rightarrow> (string \<rightharpoonup> PriceCacheEntry) \<Rightarrow> PriceCache" where
  "save_disk_cache cache chain cache_data =
     (if disk_writable cache
      then cache\<lparr>disk_files := (disk_files cache)(chain := cache_data)\<rparr>
      else cache)"

text \<open>\<open>get_price\<close> at clock reading \<open>now\<close>: the entry found, if any, and the cache afterwards.\<close>

definition get_price ::
  "PriceCache \<Rightarrow> real \<Rightarrow> int \<Rightarrow> string \<Rightarrow> int option \<Rightarrow> PriceCacheEntry option \<times> PriceCache" where
  "get_price cache now chain symb blk =
     (let cache_key = get_cache_key chain symb blk in
      case (case memory_cache cache cache_key of
              Some entry \<Rightarrow> if now - cached_at entry < max_age_seconds cache then Some entry else None
            | None \<Rightarrow> None) of
        Some entry \<Rightarrow> (Some entry, cache)
      | None \<Rightarrow>
          (let cache1 = cache\<lparr>memory_cache := (memory_cache cache)(cache_key := None)\<rparr>;
               disk_cache = load_disk_cache cache1 chain
           in case disk_cache cache_key of
                None \<Rightarrow> (None, cache1)
              | Some entry \<Rightarrow>
                  if now - cached_at entry < max_age_seconds cache1
                  then (Some entry, cache1\<lparr>memory_cache := (memory_cache cache1)(cache_key \<mapsto> entry)\<rparr>)
                  else (None, save_disk_cache cache1 chain (disk_cache(cache_key := None)))))"

text \<open>\<open>int(x)\<close> on a float truncates towards zero.\<close>

definition py_int :: "real \<Rightarrow> int" where
  "py_int x = (if 0 \<le> x then \<lfloor>x\<rfloor> else \<lceil>x\<rceil>)"

definition set_price ::
  "PriceCache \<Rightarrow> real \<Rightarrow> int \<Rightarrow> string \<Rightarrow> real \<Rightarrow> string \<Rightarrow> real \<Rightarrow> int option \<Rightarrow> int option
     \<Rightarrow> PriceCacheEntry \<times> PriceCache" where
  "set_price cache now chain symb price src conf blk ts =
     (let cache_key = get_cache_key chain symb blk;
          entry = \<lparr>e_price_usd = price,
                   e_timestamp = (case ts of Some n \<Rightarrow> if n \<noteq> 0 then n else py_int now | None \<Rightarrow> py_int now),
                   e_block_number = blk,
                   e_chain_id = chain,
                   e_token_symbol = symb,
                   e_source = src,
                   e_confidence = conf,
                   cached_at = now\<rparr>;
          cache1 = cache\<lparr>memory_cache := (memory_cache cache)(cache_key \<mapsto> entry)\<rparr>;
          disk_cache = load_disk_cache cache1 chain
      in (entry, save_disk_cache cache1 chain (disk_cache(cache_key \<mapsto> entry))))"


text \<open>A fresh cache with the default maximum age of 24 hours.\<close>

definition empty_cache :: PriceCache where
  "empty_cache =
     \<lparr>max_age_seconds = 86400, memory_cache = Map.empty, disk_files = (\<lambda>_. Map.empty),
      disk_readable = True, disk_writable = True\<rparr>"

section \<open>Pricing oracle (pricing/oracle.py)\<close>

text \<open>Exceptions are values; each carries the text that \<open>str(e)\<close> returns.\<close>

datatype py_error =
    AttributeError string
  | ZeroDivisionError string
  | ValueError string
  | OSError string
  | TimeoutError string
  | RuntimeError string
  | OverflowError string

fun str_of :: "py_error \<Rightarrow> string" where
  "str_of (AttributeError m) = m"
| "str_of (ZeroDivisionError m) = m"
| "str_of (ValueError m) = m"
| "str_of (OSError m) = m"
| "str_of (TimeoutError m) = m"
| "str_of (RuntimeError m) = m"
| "str_of (OverflowError m) = m"

record PriceResult =
  price_usd :: real
  confidence :: real
  source :: string
  timestamp :: int
  block_number :: "int option"
  token_symbol :: string
  chain_id :: int

text \<open>
  The three network clients are collaborators outside the oracle: a call returns a
  \<open>(price_usd, confidence)\<close> tuple, returns \<open>None\<close> or raises, and it may read and
  write the shared cache on the way. They are parameters of the model.
\<close>

datatype client_outcome = Quote real real | NoQuote | ClientRaises py_error

record clients =
  chainlink_get_historical_price ::
    "string \<Rightarrow> int \<Rightarrow> int \<Rightarrow> string \<Rightarrow> PriceCache \<Rightarrow> client_outcome \<times> PriceCache"
  chainlink_get_latest_price ::
    "string \<Rightarrow> int \<Rightarrow> string \<Rightarrow> PriceCache \<Rightarrow> client_outcome \<times> PriceCache"
  dex_get_token_price_via_dex ::
    "string \<Rightarrow> int \<Rightarrow> string \<Rightarrow> int \<Rightarrow> PriceCache \<Rightarrow> client_outcome \<times> PriceCache"
  coingecko_get_price_at_block ::
    "string \<Rightarrow> int \<Rightarrow> int \<Rightarrow> string \<Rightarrow> PriceCache \<Rightarrow> client_outcome \<times> PriceCache"
  coingecko_get_current_price ::
    "string \<Rightarrow> int \<Rightarrow> string \<Rightarrow> PriceCache \<Rightarrow> client_outcome \<times> PriceCache"

definition fallback_rates :: "int \<Rightarrow> (string \<times> real) list" where
  "fallback_rates chain =
     (if chain = 1 then
        [(''ETH'', 3200), (''WETH'', 3200), (''USDC'', 1), (''USDT'', 1), (''DAI'', 1),
         (''WBTC'', 65000), (''UNI'', 10), (''COMP'', 50), (''stETH'', 3200), (''UERII'', 1 / 1000)]
      else if chain = 56 then
        [(''BNB'', 650), (''WBNB'', 650), (''USDT'', 1), (''BUSD'', 1), (''CAKE'', 5 / 2)]
      else [])"

text \<open>\<open>if s:\<close> on an optional string is false for \<open>None\<close> and for the empty string.\<close>

definition truthy_str :: "string option \<Rightarrow> bool" where
  "truthy_str s = (case s of None \<Rightarrow> False | Some v \<Rightarrow> v \<noteq> [])"

text \<open>The \<open>PriceResult\<close> that each tier builds from a client's tuple (a tuple is always truthy).\<close>

definition result_of_outcome ::
  "client_outcome \<Rightarrow> string \<Rightarrow> real \<Rightarrow> int option \<Rightarrow> TokenInfo \<Rightarrow> int \<Rightarrow> PriceResult option" where
  "result_of_outcome outcome src now blk info chain =
     (case outcome of
        Quote p c \<Rightarrow>
          Some \<lparr>price_usd = p, confidence = c, source = src, timestamp = py_int now,
                block_number = blk, token_symbol = symbol info, chain_id = chain\<rparr>
      | NoQuote \<Rightarrow> None
      | ClientRaises e \<Rightarrow> None)"

text \<open>The call that \<open>_get_chainlink_price\<close> makes: historical for a truthy block, else latest.\<close>

definition chainlink_call ::
  "clients \<Rightarrow> string \<Rightarrow> TokenInfo \<Rightarrow> int \<Rightarrow> int option \<Rightarrow> PriceCache
     \<Rightarrow> client_outcome \<times> PriceCache" where
  "chainlink_call cl feed info chain blk cache =
     (case blk of
        Some n \<Rightarrow>
          if n \<noteq> 0
          then chainlink_get_historical_price cl feed chain n (symbol info) cache
          else chainlink_get_latest_price cl feed chain (symbol info) cache
      | None \<Rightarrow> chainlink_get_latest_price cl feed chain (symbol info) cache)"

definition get_chainlink_price ::
  "clients \<Rightarrow> real \<Rightarrow> TokenInfo \<Rightarrow> int \<Rightarrow> int option \<Rightarrow> PriceCache
     \<Rightarrow> PriceResult option \<times> PriceCache" where
  "get_chainlink_price cl now info chain blk cache =
     (case chainlink_feed info of
        None \<Rightarrow> (None, cache)
      | Some feed \<Rightarrow>
          if feed = [] then (None, cache)
          else
            (let (outcome, cache1) = chainlink_call cl feed info chain blk cache
             in (result_of_outcome outcome ''chainlink'' now blk info chain, cache1)))"

definition get_dex_price ::
  "clients \<Rightarrow> real \<Rightarrow> TokenInfo \<Rightarrow> int \<Rightarrow> int \<Rightarrow> PriceCache
     \<Rightarrow> PriceResult option \<times> PriceCache" where
  "get_dex_price cl now info chain n cache =
     (let (outcome, cache1) = dex_get_token_price_via_dex cl (address info) chain (symbol info) n cache
      in (result_of_outcome outcome ''dex'' now (Some n) info chain, cache1))"

definition get_coingecko_price ::
  "clients \<Rightarrow> real \<Rightarrow> TokenInfo \<Rightarrow> int \<Rightarrow> int option \<Rightarrow> PriceCache
     \<Rightarrow> PriceResult option \<times> PriceCache" where
  "get_coingecko_price cl now info chain blk cache =
     (case coingecko_id info of
        None \<Rightarrow> (None, cache)
      | Some cg \<Rightarrow>
          if cg = [] then (None, cache)
          else
            (let (outcome, cache1) =
                   (case blk of
                      Some n \<Rightarrow>
                        if n \<noteq> 0
                        then coingecko_get_price_at_block cl cg chain n (symbol info) cache
                        else coingecko_get_current_price cl cg chain (symbol info) cache
                    | None \<Rightarrow> coingecko_get_current_price cl cg chain (symbol info) cache)
             in (result_of_outcome outcome ''coingecko'' now blk info chain, cache1)))"

definition get_fallback_price ::
  "real \<Rightarrow> TokenInfo \<Rightarrow> int \<Rightarrow> int option \<Rightarrow> PriceCache \<Rightarrow> PriceResult option \<times> PriceCache" where
  "get_fallback_price now info chain blk cache =
     (case map_of (fallback_rates chain) (symbol info) of
        None \<Rightarrow> (None, cache)
      | Some p \<Rightarrow>
          if p = 0 then (None, cache)
          else
            (Some \<lparr>price_usd = p, confidence = 3 / 10, source = ''fallback'', timestamp = py_int now,
                   block_number = blk, token_symbol = symbol info, chain_id = chain\<rparr>,
             snd (set_price cache now chain (symbol info) p ''fallback'' (3 / 10) blk None)))"

text \<open>The four tiers in priority order, each tried only when the previous one gave nothing.\<close>

definition waterfall ::
  "clients \<Rightarrow> real \<Rightarrow> TokenInfo \<Rightarrow> int \<Rightarrow> int option \<Rightarrow> PriceCache
     \<Rightarrow> PriceResult option \<times> PriceCache" where
  "waterfall cl now info chain blk cache =
     (let (r1, c1) =
            (if truthy_str (chainlink_feed info)
             then get_chainlink_price cl now info chain blk cache else (None, cache))
      in case r1 of
           Some r \<Rightarrow> (Some r, c1)
         | None \<Rightarrow>
             (let (r2, c2) =
                    (case blk of
                       Some n \<Rightarrow> if n \<noteq> 0 then get_dex_price cl now info chain n c1 else (None, c1)
                     | None \<Rightarrow> (None, c1))
              in case r2 of
                   Some r \<Rightarrow> (Some r, c2)
                 | None \<Rightarrow>
                     (let (r3, c3) =
                            (if truthy_str (coingecko_id info)
                             then get_coingecko_price cl now info chain blk c2 else (None, c2))
                      in case r3 of
                           Some r \<Rightarrow> (Some r, c3)
                         | None \<Rightarrow> get_fallback_price now info chain blk c3)))"

text \<open>
  The token lookup at the head of \<open>get_token_price\<close>. A native address on a chain without
  a registered base currency leaves \<open>token_info\<close> as \<open>None\<close>, and reading its
  \<open>symbol\<close> raises \<open>AttributeError\<close>.
\<close>

definition resolve_token :: "int \<Rightarrow> string \<Rightarrow> py_error + TokenInfo option" where
  "resolve_token chain addr =
     (case get_token_by_address chain addr of
        Some info \<Rightarrow> Inr (Some info)
      | None \<Rightarrow>
          if is_native_token chain addr
          then (case get_native_token_info chain of
                  Some info \<Rightarrow> Inr (Some info)
                | None \<Rightarrow> Inl (AttributeError ''NoneType object has no attribute symbol''))
          else Inr None)"

definition get_token_price ::
  "clients \<Rightarrow> real \<Rightarrow> string \<Rightarrow> int \<Rightarrow> int option \<Rightarrow> PriceCache
     \<Rightarrow> (py_error + PriceResult option) \<times> PriceCache" where
  "get_token_price cl now addr chain blk cache =
     (case resolve_token chain addr of
        Inl e \<Rightarrow> (Inl e, cache)
      | Inr None \<Rightarrow> (Inr None, cache)
      | Inr (Some info) \<Rightarrow>
          (let (cached_price, cache1) = get_price cache now chain (symbol info) blk
           in case cached_price of
                Some entry \<Rightarrow>
                  (Inr (Some \<lparr>price_usd = e_price_usd entry, confidence = e_confidence entry,
                               source = e_source entry, timestamp = e_timestamp entry,
                               block_number = e_block_number entry,
                               token_symbol = symbol info, chain_id = chain\<rparr>), cache1)
              | None \<Rightarrow>
                  (let (r, cache2) = waterfall cl now info chain blk cache1 in (Inr r, cache2))))"

definition get_token_price_by_symbol ::
  "clients \<Rightarrow> real \<Rightarrow> string \<Rightarrow> int \<Rightarrow> int option \<Rightarrow> PriceCache
     \<Rightarrow> (py_error + PriceResult option) \<times> PriceCache" where
  "get_token_price_by_symbol cl now symb chain blk cache =
     (case get_token_info chain symb of
        None \<Rightarrow> (Inr None, cache)
      | Some info \<Rightarrow> get_token_price cl now (address info) chain blk cache)"

definition convert_token_to_usd ::
  "clients \<Rightarrow> real \<Rightarrow> string \<Rightarrow> real \<Rightarrow> int \<Rightarrow> int option \<Rightarrow> PriceCache
     \<Rightarrow> (py_error + real option) \<times> PriceCache" where
  "convert_token_to_usd cl now addr amount chain blk cache =
     (case get_token_price cl now addr chain blk cache of
        (Inl e, cache1) \<Rightarrow> (Inl e, cache1)
      | (Inr (Some price_result), cache1) \<Rightarrow> (Inr (Some (amount * price_usd price_result)), cache1)
      | (Inr None, cache1) \<Rightarrow> (Inr None, cache1))"

definition get_base_currency_price ::
  "clients \<Rightarrow> real \<Rightarrow> int \<Rightarrow> int option \<Rightarrow> PriceCache
     \<Rightarrow> (py_error + PriceResult option) \<times> PriceCache" where
  "get_base_currency_price cl now chain blk cache =
     get_token_price_by_symbol cl now (get_base_currency chain) chain blk cache"

text \<open>\<open>if not token_usd_value\<close> is true for \<open>None\<close> and for 0.0; the final division raises on a zero price.\<close>

definition normalize_to_base_currency ::
  "clients \<Rightarrow> real \<Rightarrow> string \<Rightarrow> real \<Rightarrow> int \<Rightarrow> int option \<Rightarrow> PriceCache
     \<Rightarrow> (py_error + real option) \<times> PriceCache" where
  "normalize_to_base_currency cl now addr amount chain blk cache =
     (case convert_token_to_usd cl now addr amount chain blk cache of
        (Inl e, cache1) \<Rightarrow> (Inl e, cache1)
      | (Inr None, cache1) \<Rightarrow> (Inr None, cache1)
      | (Inr (Some token_usd_value), cache1) \<Rightarrow>
          if token_usd_value = 0 then (Inr None, cache1)
          else
            (case get_base_currency_price cl now chain blk cache1 of
               (Inl e, cache2) \<Rightarrow> (Inl e, cache2)
             | (Inr None, cache2) \<Rightarrow> (Inr None, cache2)
             | (Inr (Some base_currency_price), cache2) \<Rightarrow>
                 if price_usd base_currency_price = 0
                 then (Inl (ZeroDivisionError ''float division by zero''), cache2)
                 else (Inr (Some (token_usd_value / price_usd base_currency_price)), cache2)))"

text \<open>Clients that find nothing and leave the cache alone.\<close>

definition quiet_clients :: clients where
  "quiet_clients =
     \<lparr>chainlink_get_historical_price = (\<lambda>feed chain n symb cache. (NoQuote, cache)),
      chainlink_get_latest_price = (\<lambda>feed chain symb cache. (NoQuote, cache)),
      dex_get_token_price_via_dex = (\<lambda>addr chain symb n cache. (NoQuote, cache)),
      coingecko_get_price_at_block = (\<lambda>cg chain n symb cache. (NoQuote, cache)),
      coingecko_get_current_price = (\<lambda>cg chain symb cache. (NoQuote, cache))\<rparr>"

section \<open>Revenue normalizer (tools/revenue_tool.py)\<close>

record BalanceChange =
  token_address :: string
  bc_token_symbol :: string
  initial_balance :: real
  final_balance :: real
  bc_net_change :: real
  is_surplus :: bool

record surplus_conversion =
  sc_token :: string
  sc_amount :: real
  base_value :: real
  conversion_rate :: real

record deficit_resolution =
  dr_token :: string
  deficit_amount :: real
  acquisition_cost_base :: real

text \<open>\<open>_convert_surplus_token\<close>: an unavailable conversion (\<open>None\<close>) counts as 0.0.\<close>

definition convert_surplus_token ::
  "clients \<Rightarrow> real \<Rightarrow> BalanceChange \<Rightarrow> int \<Rightarrow> int option \<Rightarrow> PriceCache
     \<Rightarrow> (py_error + surplus_conversion) \<times> PriceCache" where
  "convert_surplus_token cl now change chain blk cache =
     (case normalize_to_base_currency cl now (token_address change) (bc_net_change change)
             chain blk cache of
        (Inl e, cache1) \<Rightarrow> (Inl e, cache1)
      | (Inr v, cache1) \<Rightarrow>
          (let bv = (case v of None \<Rightarrow> 0 | Some x \<Rightarrow> x)
           in (Inr \<lparr>sc_token = bc_token_symbol change,
                    sc_amount = bc_net_change change,
                    base_value = bv,
                    conversion_rate = (if bc_net_change change > 0 then bv / bc_net_change change else 0)\<rparr>,
               cache1)))"

definition resolve_deficit_token ::
  "clients \<Rightarrow> real \<Rightarrow> BalanceChange \<Rightarrow> int \<Rightarrow> int option \<Rightarrow> PriceCache
     \<Rightarrow> (py_error + deficit_resolution) \<times> PriceCache" where
  "resolve_deficit_token cl now change chain blk cache =
     (let amount = \<bar>bc_net_change change\<bar>
      in case normalize_to_base_currency cl now (token_address change) amount chain blk cache of
           (Inl e, cache1) \<Rightarrow> (Inl e, cache1)
         | (Inr v, cache1) \<Rightarrow>
             (Inr \<lparr>dr_token = bc_token_symbol change,
                   deficit_amount = amount,
                   acquisition_cost_base = (case v of None \<Rightarrow> 0 | Some x \<Rightarrow> x)\<rparr>,
              cache1))"

text \<open>The accumulators of the reconciliation loop of \<open>RevenueNormalizerTool.execute\<close>.\<close>

record recon_acc =
  base_currency_change :: real
  total_surplus_value :: real
  surplus_conversions :: "surplus_conversion list"
  deficit_resolutions :: "deficit_resolution list"

definition recon_init :: recon_acc where
  "recon_init =
     \<lparr>base_currency_change = 0, total_surplus_value = 0,
      surplus_conversions = [], deficit_resolutions = []\<rparr>"

text \<open>
  The loop over the balance changes (Step 2). An exception raised by the oracle leaves the
  loop; \<open>execute\<close> catches it and returns a failed result.
\<close>

fun reconcile_loop ::
  "clients \<Rightarrow> real \<Rightarrow> string \<Rightarrow> int \<Rightarrow> int option \<Rightarrow> BalanceChange list \<Rightarrow> recon_acc \<Rightarrow> PriceCache
     \<Rightarrow> (py_error + recon_acc) \<times> PriceCache" where
  "reconcile_loop cl now base chain blk [] acc cache = (Inr acc, cache)"
| "reconcile_loop cl now base chain blk (change # rest) acc cache =
     (if bc_token_symbol change = base then
        reconcile_loop cl now base chain blk rest
          (acc\<lparr>base_currency_change := base_currency_change acc + bc_net_change change\<rparr>) cache
      else if is_surplus change \<and> bc_net_change change > 0 then
        (case convert_surplus_token cl now change chain blk cache of
           (Inl e, cache1) \<Rightarrow> (Inl e, cache1)
         | (Inr conversion, cache1) \<Rightarrow>
             reconcile_loop cl now base chain blk rest
               (acc\<lparr>surplus_conversions := surplus_conversions acc @ [conversion],
                     total_surplus_value := total_surplus_value acc + base_value conversion\<rparr>) cache1)
      else if \<not> is_surplus change \<and> bc_net_change change < 0 then
        (case resolve_deficit_token cl now change chain blk cache of
           (Inl e, cache1) \<Rightarrow> (Inl e, cache1)
         | (Inr resolution, cache1) \<Rightarrow>
             reconcile_loop cl now base chain blk rest
               (acc\<lparr>deficit_resolutions := deficit_resolutions acc @ [resolution]\<rparr>) cache1)
      else reconcile_loop cl now base chain blk rest acc cache)"

record revenue_data =
  revenue_base_currency :: real
  revenue_usd :: real
  rd_base_currency :: string
  is_profitable :: bool
  profit_threshold_met :: bool
  direct_base_change :: real
  rd_surplus_conversions :: "surplus_conversion list"
  rd_deficit_resolutions :: "deficit_resolution list"
  rd_total_surplus_value :: real
  base_currency_usd_rate :: real
  compliance_invariant :: "bool \<times> BalanceInvariantViolation list"
  compliance_paper :: "bool \<times> BalanceInvariantViolation list"

definition balance_change_dicts :: "BalanceChange list \<Rightarrow> balance_change_dict list" where
  "balance_change_dicts balance_changes =
     map (\<lambda>change. \<lparr>token = Some (bc_token_symbol change),
                      initial = Some (initial_balance change),
                      final = Some (final_balance change),
                      net_change = Some (bc_net_change change)\<rparr>) balance_changes"

text \<open>
  Steps 2 to 6 of \<open>execute\<close>, from the extracted balance changes to the revenue data;
  \<open>Inl\<close> is the exception that \<open>execute\<close> turns into a failed result.
\<close>

definition reconcile ::
  "clients \<Rightarrow> real \<Rightarrow> BalanceChange list \<Rightarrow> int \<Rightarrow> int option \<Rightarrow> PriceCache
     \<Rightarrow> (py_error + revenue_data) \<times> PriceCache" where
  "reconcile cl now balance_changes chain blk cache =
     (let base = get_base_currency chain
      in case reconcile_loop cl now base chain blk balance_changes recon_init cache of
           (Inl e, cache1) \<Rightarrow> (Inl e, cache1)
         | (Inr acc, cache1) \<Rightarrow>
             (let total_base_currency_profit = base_currency_change acc + total_surplus_value acc
              in case get_base_currency_price cl now chain blk cache1 of
                   (Inl e, cache2) \<Rightarrow> (Inl e, cache2)
                 | (Inr base_currency_price, cache2) \<Rightarrow>
                     (let usd_rate = (case base_currency_price of
                                        Some r \<Rightarrow> price_usd r | None \<Rightarrow> 3200);
                          total_usd_profit = total_base_currency_profit * usd_rate;
                          dicts = balance_change_dicts balance_changes
                      in (Inr \<lparr>revenue_base_currency = total_base_currency_profit,
                               revenue_usd = total_usd_profit,
                               rd_base_currency = base,
                               is_profitable =
                                 (total_usd_profit > 1 \<or> total_base_currency_profit > 1 / 1000),
                               profit_threshold_met = (total_usd_profit > 100),
                               direct_base_change = base_currency_change acc,
                               rd_surplus_conversions = surplus_conversions acc,
                               rd_deficit_resolutions = deficit_resolutions acc,
                               rd_total_surplus_value = total_surplus_value acc,
                               base_currency_usd_rate = usd_rate,
                               compliance_invariant = validate_balance_invariant dicts chain,
                               compliance_paper = validate_paper_compliance dicts chain\<rparr>,
                          cache2))))"

text \<open>Example inputs: clients of which every one has a quote, and two balance changes on chain 1.\<close>

definition busy_clients :: clients where
  "busy_clients =
     \<lparr>chainlink_get_historical_price = (\<lambda>feed chain n symb cache. (Quote 3000 (49 / 50), cache)),
      chainlink_get_latest_price = (\<lambda>feed chain symb cache. (Quote 3001 (49 / 50), cache)),
      dex_get_token_price_via_dex = (\<lambda>addr chain symb n cache. (Quote 2990 (4 / 5), cache)),
      coingecko_get_price_at_block = (\<lambda>cg chain n symb cache. (Quote 2995 (4 / 5), cache)),
      coingecko_get_current_price = (\<lambda>cg chain symb cache. (Quote 2996 (19 / 20), cache))\<rparr>"

definition eth_half :: BalanceChange where
  "eth_half =
     \<lparr>token_address = ''0x0000000000000000000000000000000000000000'', bc_token_symbol = ''ETH'',
      initial_balance = 100000, final_balance = 100000 + 1 / 2, bc_net_change = 1 / 2,
      is_surplus = True\<rparr>"

definition dai_640 :: BalanceChange where
  "dai_640 =
     \<lparr>token_address = ''0x6B175474E89094C44Da98b954EedeAC495271d0F'', bc_token_symbol = ''DAI'',
      initial_balance = 0, final_balance = 640, bc_net_change = 640, is_surplus = True\<rparr>"

definition unknown_surplus :: BalanceChange where
  "unknown_surplus =
     \<lparr>token_address = ''0x1111111111111111111111111111111111111111'', bc_token_symbol = ''UNKNOWN'',
      initial_balance = 0, final_balance = 5, bc_net_change = 5, is_surplus = True\<rparr>"

section \<open>Execution tool: address checksumming (tools/execution_tool.py)\<close>

text \<open>\<open>str.replace('0x', '')\<close>: every non-overlapping occurrence, found from the left, is removed.\<close>

fun remove_0x :: "string \<Rightarrow> string" where
  "remove_0x (a # b # rest) =
     (if a = CHR ''0'' \<and> b = CHR ''x'' then remove_0x rest else a # remove_0x (b # rest))"
| "remove_0x [a] = [a]"
| "remove_0x [] = []"

definition is_digit_char :: "char \<Rightarrow> bool" where
  "is_digit_char c = (c \<in> set ''0123456789'')"

definition is_lower_hex :: "char \<Rightarrow> bool" where
  "is_lower_hex c = (c \<in> set ''0123456789abcdef'')"

text \<open>
  The EIP-55 loop over \<open>enumerate(address)\<close>. The Keccak-256 digest comes from a library
  outside the repository and is a parameter: \<open>digit i\<close> is the value of the \<open>i\<close>-th
  hexadecimal digit of the digest of the address, \<open>int(address_hash[i], 16)\<close>.
\<close>

fun checksum_chars :: "(nat \<Rightarrow> nat) \<Rightarrow> nat \<Rightarrow> string \<Rightarrow> string" where
  "checksum_chars digit i [] = []"
| "checksum_chars digit i (c # cs) =
     (if is_digit_char c then c
      else if digit i \<ge> 8 then upper_char c else c) # checksum_chars digit (Suc i) cs"

text \<open>
  \<open>_to_checksum_address\<close>, with \<open>keccak_digit s i\<close> the \<open>i\<close>-th digit of the digest of
  \<open>s\<close>. An address that is not 40 lower-case hexadecimal digits after normalisation is
  returned as \<open>'0x'\<close> followed by the normalised text.
\<close>

definition to_checksum_address :: "(string \<Rightarrow> nat \<Rightarrow> nat) \<Rightarrow> string \<Rightarrow> string" where
  "to_checksum_address keccak_digit a =
     (let address = remove_0x (lower a)
      in if length address = 40 \<and> list_all is_lower_hex address
         then ''0x'' @ checksum_chars (keccak_digit address) 0 address
         else ''0x'' @ address)"

section \<open>Execution tool: analysis of the harness output\<close>

text \<open>\<open>needle in haystack\<close> on strings.\<close>

fun starts_with :: "string \<Rightarrow> string \<Rightarrow> bool" where
  "starts_with [] s = True"
| "starts_with (p # ps) [] = False"
| "starts_with (p # ps) (c # cs) = (p = c \<and> starts_with ps cs)"

fun contains :: "string \<Rightarrow> string \<Rightarrow> bool" where
  "contains needle [] = (needle = [])"
| "contains needle (c # cs) = (starts_with needle (c # cs) \<or> contains needle cs)"

text \<open>
  The regular-expression classes on the characters of the model: the white-space class is
  the white space among the first 256 code points, the digit class the ten decimal digits.
\<close>

definition is_space :: "char \<Rightarrow> bool" where
  "is_space c = ((of_char c :: nat) \<in> set [9, 10, 11, 12, 13, 28, 29, 30, 31, 32, 133, 160])"

definition is_hex_char :: "char \<Rightarrow> bool" where
  "is_hex_char c = (c \<in> set ''0123456789abcdefABCDEF'')"

definition int_of_digits :: "string \<Rightarrow> nat" where
  "int_of_digits ds = foldl (\<lambda>acc c. 10 * acc + ((of_char c :: nat) - 48)) 0 ds"

text \<open>
  \<open>re.search\<close> for a literal \<open>key\<close> (its colon included) followed by optional white
  space and a captured run of digits: the match at the head of the text, then the leftmost
  match. The value is \<open>int(match.group(1))\<close>.
\<close>

definition match_number_here :: "string \<Rightarrow> string \<Rightarrow> nat option" where
  "match_number_here key s =
     (if starts_with key s
      then (let ds = takeWhile is_digit_char (dropWhile is_space (drop (length key) s))
            in if ds = [] then None else Some (int_of_digits ds))
      else None)"

fun search_number :: "string \<Rightarrow> string \<Rightarrow> nat option" where
  "search_number key [] = match_number_here key []"
| "search_number key (c # cs) =
     (case match_number_here key (c # cs) of
        Some v \<Rightarrow> Some v
      | None \<Rightarrow> search_number key cs)"

text \<open>The loop over a pattern list that stops at the first pattern with a match.\<close>

fun first_pattern_match :: "string list \<Rightarrow> string \<Rightarrow> nat option" where
  "first_pattern_match [] out = None"
| "first_pattern_match (key # keys) out =
     (case search_number key out of
        Some v \<Rightarrow> Some v
      | None \<Rightarrow> first_pattern_match keys out)"

text \<open>
  The search for \<open>Target contract:\<close>, optional white space and a captured address
  (\<open>0x\<close> and 40 hexadecimal digits).
\<close>

definition match_target_here :: "string \<Rightarrow> string option" where
  "match_target_here s =
     (if starts_with ''Target contract:'' s
      then (let rest = dropWhile is_space (drop (length ''Target contract:'') s)
            in if starts_with ''0x'' rest \<and> length (take 40 (drop 2 rest)) = 40
                  \<and> list_all is_hex_char (take 40 (drop 2 rest))
               then Some (take 42 rest) else None)
      else None)"

fun search_target :: "string \<Rightarrow> string option" where
  "search_target [] = None"
| "search_target (c # cs) =
     (case match_target_here (c # cs) of
        Some a \<Rightarrow> Some a
      | None \<Rightarrow> search_target cs)"

definition eth_gained_patterns :: "string list" where
  "eth_gained_patterns =
     [''ETH_GAINED:'', ''ETH gained:'', ''ETH_EQUIVALENT:'',
      ''Total value extracted (ETH equivalent):'']"

definition tokens_patterns :: "string list" where
  "tokens_patterns =
     [''TOKENS_MINTED_DETECTED:'', ''TOKENS_EXTRACTED:'', ''Tokens extracted:'',
      ''FINAL_TOKEN_BALANCE:'']"

text \<open>The result dictionary of \<open>_run_foundry_test\<close>, with the keys that the analysis reads.\<close>

record execution_result =
  er_success :: bool
  er_compiled :: bool
  er_output :: string

text \<open>
  The analysis dictionary. The deployed-contract address and the notes are left out:
  step 6 of the analysis writes only those two keys.
\<close>

record analysis =
  profitable :: bool
  exploit_executed_successfully :: bool
  eth_gained :: real
  tokens_extracted :: "(string \<times> nat) list"

definition analysis_init :: analysis where
  "analysis_init =
     \<lparr>profitable = False, exploit_executed_successfully = False, eth_gained = 0,
      tokens_extracted = []\<rparr>"

text \<open>
  \<open>eth_gained_wei / 10**18\<close> is a true division of integers: it raises \<open>OverflowError\<close>
  when the quotient rounds to a double beyond the largest finite one (a run of some 327
  digits or more); otherwise the model takes the quotient as a real number.
\<close>

definition float_overflow :: "real \<Rightarrow> bool" where
  "float_overflow q = (q \<ge> 2 ^ 1024 - 2 ^ 970)"

text \<open>Steps 1 and 2: the two pairs of markers.\<close>

definition analysis_markers :: "string \<Rightarrow> analysis" where
  "analysis_markers out =
     (let a1 = (if contains ''EXPLOIT_EXECUTED_SUCCESSFULLY: true'' out
                then analysis_init\<lparr>exploit_executed_successfully := True\<rparr>
                else if contains ''EXPLOIT_EXECUTED_SUCCESSFULLY: false'' out
                then analysis_init\<lparr>exploit_executed_successfully := False\<rparr>
                else analysis_init)
      in if contains ''EXPLOIT_PROFITABLE: true'' out then a1\<lparr>profitable := True\<rparr>
         else if contains ''EXPLOIT_PROFITABLE: false'' out then a1\<lparr>profitable := False\<rparr>
         else a1)"

text \<open>Steps 4, 5 and 7: the extracted tokens, the state-change marker and the final decision.\<close>

definition analysis_finish :: "string \<Rightarrow> analysis \<Rightarrow> analysis" where
  "analysis_finish out a3 =
     (let a4 = (case first_pattern_match tokens_patterns out of
                  None \<Rightarrow> a3
                | Some amount \<Rightarrow>
                    (let target = (case search_target out of
                                     Some t \<Rightarrow> t | None \<Rightarrow> ''unknown_token'')
                     in a3\<lparr>tokens_extracted :=
                              AList.update target amount (tokens_extracted a3)\<rparr>));
          a5 = (if contains ''EXPLOIT_CAUSED_STATE_CHANGES: true'' out
                then a4\<lparr>exploit_executed_successfully := True\<rparr> else a4);
          total_tokens_extracted = sum_list (map snd (tokens_extracted a5))
      in if exploit_executed_successfully a5 \<or> total_tokens_extracted > 0 \<or> eth_gained a5 > 0
            \<or> contains ''STORAGE_CHANGE_DETECTED'' out
         then a5\<lparr>exploit_executed_successfully := True\<rparr> else a5)"

text \<open>
  \<open>_analyze_execution_result\<close>: the analysis, or the exception that step 3 raises on a
  quotient too large for a float.
\<close>

definition analyze_execution_result :: "execution_result \<Rightarrow> real \<Rightarrow> py_error + analysis" where
  "analyze_execution_result er initial_bal =
     (if \<not> er_success er then Inr analysis_init
      else
        (let out = er_output er;
             a2 = analysis_markers out
         in case first_pattern_match eth_gained_patterns out of
              None \<Rightarrow> Inr (analysis_finish out a2)
            | Some eth_gained_wei \<Rightarrow>
                if float_overflow (real eth_gained_wei / 10 ^ 18)
                then Inl (OverflowError ''integer division result too large for a float'')
                else
                  (let gained = real eth_gained_wei / 10 ^ 18;
                       a = a2\<lparr>eth_gained := max (eth_gained a2) gained\<rparr>
                   in Inr (analysis_finish out
                             (if gained > 0 then a\<lparr>profitable := True\<rparr> else a)))))"

section \<open>Tool call executor (tool_calling.py)\<close>

datatype ToolCallStatus = PENDING | RUNNING | COMPLETED | FAILED | TIMEOUT

text \<open>\<open>ToolResult\<close>; its data dictionary is opaque to the executor and is a type parameter.\<close>

record 'd ToolResult =
  success :: bool
  data :: 'd
  error_message :: "string option"
  tool_name :: string

text \<open>
  \<open>ToolCall\<close>, without the elapsed wall-clock time. The parameter dictionary is opaque to
  the executor as well.
\<close>

record ('p, 'd) ToolCall =
  tc_id :: string
  tc_name :: string
  parameters :: 'p
  status :: ToolCallStatus
  result :: "'d ToolResult option"
  error :: "string option"

text \<open>
  What \<open>asyncio.wait_for(tool.execute(parameters), timeout)\<close> observes of a capability:
  it returns a result in time, it raises in time, or the timeout expires first. A
  capability is a function of its parameters.
\<close>

datatype 'd tool_run = Returns "'d ToolResult" | Raises py_error | Overruns

text \<open>
  The executor: the registry's dictionary of tools and the text of \<open>self.timeout\<close> as the
  f-string prints it.
\<close>

record ('p, 'd) executor =
  registry :: "string \<rightharpoonup> ('p \<Rightarrow> 'd tool_run)"
  timeout_text :: string

text \<open>\<open>except asyncio.TimeoutError\<close> comes before \<open>except Exception\<close>.\<close>

fun is_timeout_error :: "py_error \<Rightarrow> bool" where
  "is_timeout_error (TimeoutError m) = True"
| "is_timeout_error e = False"

definition timed_out_message :: "('p, 'd) executor \<Rightarrow> string" where
  "timed_out_message ex = ''Tool call timed out after '' @ timeout_text ex @ ''s''"

definition not_found_message :: "string \<Rightarrow> string" where
  "not_found_message n = ''Tool '' @ [CHR 0x27] @ n @ [CHR 0x27] @ '' not found in registry''"

definition execute_tool_call :: "('p, 'd) executor \<Rightarrow> ('p, 'd) ToolCall \<Rightarrow> ('p, 'd) ToolCall" where
  "execute_tool_call ex tool_call =
     (let tc = tool_call\<lparr>status := RUNNING\<rparr>
      in case registry ex (tc_name tc) of
           None \<Rightarrow> tc\<lparr>status := FAILED, error := Some (not_found_message (tc_name tc))\<rparr>
         | Some tool \<Rightarrow>
             (case tool (parameters tc) of
                Returns r \<Rightarrow> tc\<lparr>result := Some r, status := COMPLETED\<rparr>
              | Overruns \<Rightarrow> tc\<lparr>status := TIMEOUT, error := Some (timed_out_message ex)\<rparr>
              | Raises e \<Rightarrow>
                  if is_timeout_error e
                  then tc\<lparr>status := TIMEOUT, error := Some (timed_out_message ex)\<rparr>
                  else tc\<lparr>status := FAILED, error := Some (str_of e)\<rparr>))"

text \<open>
  \<open>execute_tool_calls\<close>. The tasks of the parallel branch share no state but the
  registry, which they only read, and each one mutates its own call, so the gathered
  outcome does not depend on the interleaving; \<open>gather\<close> hands back each task's value, or
  the exception it let escape.
\<close>

definition gather_results ::
  "('p, 'd) executor \<Rightarrow> ('p, 'd) ToolCall list \<Rightarrow> (py_error + ('p, 'd) ToolCall) list" where
  "gather_results ex tool_calls = map (\<lambda>tc. Inr (execute_tool_call ex tc)) tool_calls"

definition handle_gathered ::
  "('p, 'd) ToolCall \<Rightarrow> py_error + ('p, 'd) ToolCall \<Rightarrow> ('p, 'd) ToolCall" where
  "handle_gathered tool_call res =
     (case res of
        Inl e \<Rightarrow> tool_call\<lparr>status := FAILED, error := Some (str_of e)\<rparr>
      | Inr done \<Rightarrow> done)"

definition execute_tool_calls ::
  "('p, 'd) executor \<Rightarrow> ('p, 'd) ToolCall list \<Rightarrow> bool \<Rightarrow> ('p, 'd) ToolCall list" where
  "execute_tool_calls ex tool_calls parallel =
     (if tool_calls = [] then []
      else if parallel
      then map2 handle_gathered tool_calls (gather_results ex tool_calls)
      else map (execute_tool_call ex) tool_calls)"

text \<open>The batch of three calls: one tool returns, one raises, one outlasts the timeout.\<close>

definition ok_result :: "unit ToolResult" where
  "ok_result = \<lparr>success = True, data = (), error_message = None, tool_name = ''ok_tool''\<rparr>"

definition three_tools :: "(unit, unit) executor" where
  "three_tools =
     \<lparr>registry = [''ok_tool'' \<mapsto> (\<lambda>p. Returns ok_result),
                  ''failing_tool'' \<mapsto> (\<lambda>p. Raises (ValueError ''boom'')),
                  ''slow_tool'' \<mapsto> (\<lambda>p. Overruns),
                  ''upstream_tool'' \<mapsto> (\<lambda>p. Raises (TimeoutError ''upstream timed out''))],
      timeout_text = ''30.0''\<rparr>"

definition new_call :: "string \<Rightarrow> string \<Rightarrow> (unit, unit) ToolCall" where
  "new_call i n =
     \<lparr>tc_id = i, tc_name = n, parameters = (), status = PENDING, result = None, error = None\<rparr>"

definition three_calls :: "(unit, unit) ToolCall list" where
  "three_calls =
     [new_call ''call_0'' ''ok_tool'', new_call ''call_1'' ''failing_tool'',
      new_call ''call_2'' ''slow_tool'']"

section \<open>Execution tool: the temporary Foundry project\<close>

text \<open>The parameters of \<open>execute\<close> that decide its path.\<close>

record exec_params =
  exploit_code :: string
  p_chain_id :: int
  p_target_address :: string
  p_block_number :: "int option"
  initial_balance_param :: real

text \<open>The configured RPC endpoints (\<open>config.get_chain_config\<close>): chains 1, 43114 and 56.\<close>

record config =
  ethereum_archive_url :: string
  avalanche_rpc_url :: string
  bsc_archive_url :: string

definition chain_rpc_url :: "config \<Rightarrow> int \<Rightarrow> string" where
  "chain_rpc_url cfg chain =
     (if chain = 1 then ethereum_archive_url cfg
      else if chain = 43114 then avalanche_rpc_url cfg
      else if chain = 56 then bsc_archive_url cfg
      else [])"

text \<open>
  The world around one run: whether \<open>forge\<close> is installed, what \<open>tempfile.mkdtemp\<close>
  returns, how \<open>forge init\<close> ends, whether the project files can be written, what
  \<open>_run_foundry_test\<close> returns, and whether \<open>shutil.rmtree\<close> succeeds.
\<close>

record exec_env =
  env_config :: config
  foundry_installed :: bool
  mkdtemp :: "py_error + string"
  forge_init :: "py_error + int"
  write_files :: "py_error + unit"
  run_foundry_test :: "py_error + execution_result"
  rmtree_ok :: bool

text \<open>
  \<open>_create_foundry_config\<close>: the fork URL and block of the configuration, or the
  \<open>ValueError\<close> for a chain without an RPC URL (the connectivity test only logs).
\<close>

definition create_foundry_config :: "config \<Rightarrow> int \<Rightarrow> int option \<Rightarrow> py_error + string \<times> int option" where
  "create_foundry_config cfg chain blk =
     (let rpc_url = chain_rpc_url cfg chain
      in if rpc_url = []
         then Inl (ValueError (''No RPC URL configured for chain '' @ str_int chain))
         else Inr (rpc_url, if truthy_int blk then blk else None))"

text \<open>
  \<open>_create_foundry_project\<close> on the set of existing directories: the project directory,
  or \<open>None\<close> after a failure that its \<open>except\<close> swallowed, and the directories afterwards.
\<close>

definition create_foundry_project ::
  "exec_env \<Rightarrow> exec_params \<Rightarrow> string set \<Rightarrow> string option \<times> string set" where
  "create_foundry_project env params dirs =
     (case mkdtemp env of
        Inl e \<Rightarrow> (None, dirs)
      | Inr temp_dir \<Rightarrow>
          (let dirs1 = insert temp_dir dirs
           in case forge_init env of
                Inl e \<Rightarrow> (None, dirs1)
              | Inr returncode \<Rightarrow>
                  if returncode \<noteq> 0 then (None, dirs1)
                  else
                    (case create_foundry_config (env_config env) (p_chain_id params)
                            (p_block_number params) of
                       Inl e \<Rightarrow> (None, dirs1)
                     | Inr foundry_config \<Rightarrow>
                         (case write_files env of
                            Inl e \<Rightarrow> (None, dirs1)
                          | Inr u \<Rightarrow> (Some temp_dir, dirs1)))))"

definition cleanup_temp_dir :: "exec_env \<Rightarrow> string \<Rightarrow> string set \<Rightarrow> string set" where
  "cleanup_temp_dir env temp_dir dirs = (if rmtree_ok env then dirs - {temp_dir} else dirs)"

definition failure_result :: "string \<Rightarrow> analysis option ToolResult" where
  "failure_result msg =
     \<lparr>success = False, data = None, error_message = Some msg,
      tool_name = ''concrete_execution_tool''\<rparr>"

text \<open>
  \<open>ConcreteExecutionTool.execute\<close> on the set of existing directories. The checksummed
  target address starts with \<open>0x\<close> and the rewriting of the code keeps a non-empty text
  non-empty, so the first check fails exactly for an empty \<open>exploit_code\<close>. The result data
  is represented by the analysis it is built from. An exception of the test run or of the
  analysis passes through the \<open>finally\<close> clause to the outer handler.
\<close>

definition execution_tool_execute ::
  "exec_env \<Rightarrow> exec_params \<Rightarrow> string set \<Rightarrow> analysis option ToolResult \<times> string set" where
  "execution_tool_execute env params dirs =
     (if exploit_code params = []
      then (failure_result ''Missing exploit_code or target_address'', dirs)
      else if \<not> foundry_installed env
      then (failure_result
              ''Foundry not found. Install with: curl -L https://foundry.paradigm.xyz | bash'', dirs)
      else
        (case create_foundry_project env params dirs of
           (None, dirs1) \<Rightarrow> (failure_result ''Failed to create Foundry project'', dirs1)
         | (Some temp_dir, dirs1) \<Rightarrow>
             (case run_foundry_test env of
                Inl e \<Rightarrow>
                  (failure_result (''Execution error: '' @ str_of e),
                   cleanup_temp_dir env temp_dir dirs1)
              | Inr execution_res \<Rightarrow>
                  (case analyze_execution_result execution_res (initial_balance_param params) of
                     Inl e \<Rightarrow>
                       (failure_result (''Execution error: '' @ str_of e),
                        cleanup_temp_dir env temp_dir dirs1)
                   | Inr analysis_res \<Rightarrow>
                       (\<lparr>success = True,
                         data = Some analysis_res,
                         error_message = None,
                         tool_name = ''concrete_execution_tool''\<rparr>,
                        cleanup_temp_dir env temp_dir dirs1)))))"

text \<open>A machine with Foundry installed and endpoints for the three configured chains.\<close>

definition working_env :: exec_env where
  "working_env =
     \<lparr>env_config = \<lparr>ethereum_archive_url = ''https://eth.example/rpc'',
                     avalanche_rpc_url = ''https://api.avax.network/ext/bc/C/rpc'',
                     bsc_archive_url = ''https://bsc-dataseed.binance.org''\<rparr>,
      foundry_installed = True,
      mkdtemp = Inr ''/tmp/a1_exploit_k3v9'',
      forge_init = Inr 0,
      write_files = Inr (),
      run_foundry_test =
        Inr \<lparr>er_success = True, er_compiled = True,
             er_output = ''EXPLOIT_EXECUTED_SUCCESSFULLY: true''\<rparr>,
      rmtree_ok = True\<rparr>"

definition polygon_params :: exec_params where
  "polygon_params =
     \<lparr>exploit_code = ''contract ExploitContract {}'',
      p_chain_id = 137,
      p_target_address = ''0xdAC17F958D2ee523a2206206994597C13D831ec7'',
      p_block_number = Some 50000000,
      initial_balance_param = 100000\<rparr>"

section \<open>Properties of the balance invariant validator\<close>

lemma get_token_info_X: "get_token_info chain ''X'' = None"
  by (simp add: get_token_info_def TOKENS_def upper_def upper_char_def)

text \<open>
  C1. For the balance-change list \<open>[{token: "X", initial: 100, final: 0}]\<close> and any chain id,
  \<open>validate_balance_invariant\<close> returns \<open>is_valid = False\<close> together with exactly one violation,
  of kind depletion, whose violation amount is 100.
\<close>

theorem C1_depletion_detected:
  "validate_balance_invariant
     [\<lparr>token = Some ''X'', initial = Some 100, final = Some 0, net_change = nc\<rparr>] chain
   = (False,
      [\<lparr>v_token_symbol = ''X'', v_token_address = [], v_initial_balance = 100,
        v_final_balance = 0, violation_amount = 100, v_chain_id = chain,
        violation_type = ''depletion''\<rparr>])"
  by (simp add: validate_balance_invariant_def invariant_step_def dict_get_def
      token_address_of_def get_token_info_X)

lemma invariant_loop_set:
  "set (invariant_loop chain bcs acc) = set acc \<union> (\<Union>b \<in> set bcs. set (invariant_step chain b))"
  by (induction bcs arbitrary: acc) auto

lemma paper_loop_set:
  "set (paper_loop chain bcs acc) = set acc \<union> (\<Union>b \<in> set bcs. set (paper_step chain b))"
  by (induction bcs arbitrary: acc) auto

lemma invariant_step_kinds:
  "v \<in> set (invariant_step chain b) \<Longrightarrow> violation_type v \<in> {''depletion'', ''negative_balance''}"
  by (auto simp: invariant_step_def Let_def split: if_splits)

lemma paper_step_kinds:
  "v \<in> set (paper_step chain b) \<Longrightarrow> violation_type v = ''insufficient_funds''"
  by (auto simp: paper_step_def Let_def split: option.splits if_splits)

text \<open>
  C2, as the code has it. Every violation of the basic invariant pass has kind
  \<open>depletion\<close> or \<open>negative_balance\<close>, and every violation of the paper-compliance pass has
  kind \<open>insufficient_funds\<close>: the kinds are drawn from
  \<open>{depletion, negative_balance, insufficient_funds}\<close>.
\<close>

theorem C2_violation_kinds:
  "(\<forall>v \<in> set (snd (validate_balance_invariant bcs chain)).
       violation_type v \<in> {''depletion'', ''negative_balance''}) \<and>
   (\<forall>v \<in> set (snd (validate_paper_compliance bcs chain)).
       violation_type v = ''insufficient_funds'')"
  by (auto simp: validate_balance_invariant_def validate_paper_compliance_def Let_def
      invariant_loop_set paper_loop_set
      dest: invariant_step_kinds paper_step_kinds)

theorem C2_violation_kinds_witness:
  "map violation_type (snd (validate_balance_invariant
     [\<lparr>token = Some ''ETH'', initial = Some 100000, final = Some (- 5), net_change = None\<rparr>] 1))
     = [''depletion'', ''negative_balance''] \<and>
   map violation_type (snd (validate_paper_compliance
     [\<lparr>token = Some ''ETH'', initial = Some 100000, final = Some (- 5), net_change = None\<rparr>] 1))
     = [''insufficient_funds'']"
  using C2_violation_kinds
    [of "[\<lparr>token = Some ''ETH'', initial = Some 100000, final = Some (- 5), net_change = None\<rparr>]" 1]
  by (simp add: validate_balance_invariant_def validate_paper_compliance_def Let_def
      invariant_step_def paper_step_def dict_get_def PAPER_INITIAL_BALANCES_def)

text \<open>
  The paper-compliance pass on chain 1 flags a final ETH balance of 0 with the kind
  \<open>insufficient_funds\<close>, which is not one of
  \<open>depletion\<close>, \<open>negative_balance\<close>, \<open>insufficient_provisioning\<close>.
\<close>

theorem C2_kind_counterexample:
  "map violation_type (snd (validate_paper_compliance
       [\<lparr>token = Some ''ETH'', initial = Some 100000, final = Some 0, net_change = None\<rparr>] 1))
     = [''insufficient_funds''] \<and>
   ''insufficient_funds'' \<notin> {''depletion'', ''negative_balance'', ''insufficient_provisioning''}"
  by (simp add: validate_paper_compliance_def paper_step_def dict_get_def Let_def
      PAPER_INITIAL_BALANCES_def)

section \<open>Properties of the price cache\<close>

lemma get_cache_key_zero: "get_cache_key chain symb (Some 0) = get_cache_key chain symb None"
  by (simp add: get_cache_key_def truthy_int_def)

text \<open>
  C10. Block number 0 is keyed as "latest": \<open>get_price\<close> and \<open>set_price\<close> with
  \<open>block_number = 0\<close> read and write the cache entry of the calls without a block number,
  so a price stored for block 0 is what a later lookup of the latest price returns
  while it is within the maximum age.
\<close>

theorem C10_block_zero_is_latest:
  "get_cache_key chain symb (Some 0) = get_cache_key chain symb None \<and>
   get_price cache now chain symb (Some 0) = get_price cache now chain symb None \<and>
   memory_cache (snd (set_price cache now chain symb price src conf (Some 0) ts))
       (get_cache_key chain symb None)
     = Some (fst (set_price cache now chain symb price src conf (Some 0) ts)) \<and>
   (later - now < max_age_seconds cache \<longrightarrow>
      fst (get_price (snd (set_price cache now chain symb price src conf (Some 0) ts))
             later chain symb None)
        = Some (fst (set_price cache now chain symb price src conf (Some 0) ts)) \<and>
      e_block_number (fst (set_price cache now chain symb price src conf (Some 0) ts)) = Some 0 \<and>
      fst (get_price (snd (set_price cache now chain symb price src conf None ts))
             later chain symb (Some 0))
        = Some (fst (set_price cache now chain symb price src conf None ts)) \<and>
      e_block_number (fst (set_price cache now chain symb price src conf None ts)) = None)"
  by (simp add: get_cache_key_zero get_price_def set_price_def Let_def save_disk_cache_def)

theorem C10_block_zero_is_latest_witness:
  "(2000::real) - 1000 < max_age_seconds empty_cache \<and>
   get_cache_key 1 ''ETH'' (Some 0) = ''1_ETH_latest'' \<and>
   fst (get_price (snd (set_price empty_cache 1000 1 ''ETH'' 3200 ''dex'' (4/5) (Some 0) None))
          2000 1 ''ETH'' None)
     = Some (fst (set_price empty_cache 1000 1 ''ETH'' 3200 ''dex'' (4/5) (Some 0) None)) \<and>
   e_block_number (fst (set_price empty_cache 1000 1 ''ETH'' 3200 ''dex'' (4/5) (Some 0) None)) = Some 0"
proof -
  have age: "(2000::real) - 1000 < max_age_seconds empty_cache"
    by (simp add: empty_cache_def)
  have key: "get_cache_key 1 ''ETH'' (Some 0) = ''1_ETH_latest''"
    by code_simp
  from C10_block_zero_is_latest
    [of 1 "''ETH''" empty_cache 1000 3200 "''dex''" "4/5" None 2000] age key
  show ?thesis by blast
qed

section \<open>Properties of the pricing oracle and the reconciliation\<close>

lemmas oracle_eval =
  get_token_price_def resolve_token_def get_token_by_address_def get_token_info_def
  get_native_token_info_def is_native_token_def get_base_currency_def TOKENS_def mk_token_def
  lower_def lower_char_def upper_def upper_char_def
  get_price_def set_price_def empty_cache_def get_cache_key_def truthy_int_def
  load_disk_cache_def save_disk_cache_def str_int_def str_nat.simps digit_char_def
  waterfall_def truthy_str_def get_chainlink_price_def chainlink_call_def get_dex_price_def
  get_coingecko_price_def get_fallback_price_def fallback_rates_def result_of_outcome_def
  convert_token_to_usd_def normalize_to_base_currency_def get_base_currency_price_def
  get_token_price_by_symbol_def Let_def

lemmas recon_eval =
  reconcile_def recon_init_def convert_surplus_token_def resolve_deficit_token_def

text \<open>The base-currency lookup: on chains 1 and 56 the currency is registered, elsewhere the lookup finds nothing; it never raises.\<close>

lemma resolve_base_currency:
  assumes a: "get_token_info chain (get_base_currency chain) = Some info"
  shows "resolve_token chain (address info) = Inr (Some info)"
proof -
  consider "chain = 1" | "chain = 56" | "chain \<noteq> 1 \<and> chain \<noteq> 56" by blast
  then show ?thesis
  proof cases
    case 1
    with a have "info = snd (hd (TOKENS 1))"
      by (simp add: get_token_info_def get_base_currency_def TOKENS_def upper_def upper_char_def)
    with 1 show ?thesis
      by (simp add: TOKENS_def mk_token_def resolve_token_def get_token_by_address_def
          lower_def lower_char_def)
  next
    case 2
    with a have "info = snd (hd (TOKENS 56))"
      by (simp add: get_token_info_def get_base_currency_def TOKENS_def upper_def upper_char_def)
    with 2 show ?thesis
      by (simp add: TOKENS_def mk_token_def resolve_token_def get_token_by_address_def
          lower_def lower_char_def)
  next
    case 3
    with a show ?thesis
      by (simp add: get_token_info_def get_base_currency_def TOKENS_def)
  qed
qed

lemma get_base_currency_price_no_error:
  "fst (get_base_currency_price cl now chain blk cache) \<noteq> Inl e"
proof (cases "get_token_info chain (get_base_currency chain)")
  case None
  then show ?thesis
    by (simp add: get_base_currency_price_def get_token_price_by_symbol_def)
next
  case (Some info)
  from resolve_base_currency[OF Some] Some show ?thesis
    by (simp add: get_base_currency_price_def get_token_price_by_symbol_def get_token_price_def
        split: prod.splits option.splits)
qed

lemma reconcile_loop_sums:
  "reconcile_loop cl now base chain blk changes acc cache = (Inr acc', cache') \<Longrightarrow>
   base_currency_change acc' =
     base_currency_change acc
       + sum_list (map bc_net_change (filter (\<lambda>c. bc_token_symbol c = base) changes)) \<and>
   (\<exists>new. surplus_conversions acc' = surplus_conversions acc @ new \<and>
          total_surplus_value acc' = total_surplus_value acc + sum_list (map base_value new))"
proof (induction changes arbitrary: acc cache)
  case Nil
  then show ?case by simp
next
  case (Cons change rest)
  show ?case
  proof (cases "bc_token_symbol change = base")
    case True
    with Cons.prems
      Cons.IH[of "acc\<lparr>base_currency_change := base_currency_change acc + bc_net_change change\<rparr>" cache]
    show ?thesis by (simp add: algebra_simps)
  next
    case notbase: False
    show ?thesis
    proof (cases "is_surplus change \<and> bc_net_change change > 0")
      case True
      from Cons.prems notbase True obtain conv c1 where
        rest: "reconcile_loop cl now base chain blk rest
                 (acc\<lparr>surplus_conversions := surplus_conversions acc @ [conv],
                      total_surplus_value := total_surplus_value acc + base_value conv\<rparr>) c1
               = (Inr acc', cache')"
        by (auto split: prod.splits sum.splits)
      from Cons.IH[OF rest] notbase show ?thesis by auto
    next
      case ns: False
      show ?thesis
      proof (cases "\<not> is_surplus change \<and> bc_net_change change < 0")
        case True
        from Cons.prems notbase ns True obtain res c1 where
          rest: "reconcile_loop cl now base chain blk rest
                   (acc\<lparr>deficit_resolutions := deficit_resolutions acc @ [res]\<rparr>) c1
                 = (Inr acc', cache')"
          by (auto split: prod.splits sum.splits)
        from Cons.IH[OF rest] notbase show ?thesis by auto
      next
        case False
        with Cons.prems notbase ns have
          rest: "reconcile_loop cl now base chain blk rest acc cache = (Inr acc', cache')"
          by auto
        from Cons.IH[OF rest] notbase show ?thesis by auto
      qed
    qed
  qed
qed

text \<open>
  C8. Whenever the reconciliation returns, the total economic performance is the direct
  base-currency delta plus the sum of the surplus conversions, the direct delta being the
  sum of the net changes of the base-currency entries. In particular a direct delta of 0.5
  with one surplus conversion worth 0.2 gives a total within \<open>1e-9\<close> of 0.7
  (amounts are taken as real numbers).
\<close>

theorem C8_total_is_direct_plus_surplus:
  assumes "reconcile cl now changes chain blk cache = (Inr rd, cache')"
  shows "revenue_base_currency rd
           = direct_base_change rd + sum_list (map base_value (rd_surplus_conversions rd)) \<and>
         direct_base_change rd
           = sum_list (map bc_net_change
               (filter (\<lambda>c. bc_token_symbol c = get_base_currency chain) changes)) \<and>
         (direct_base_change rd = 1 / 2 \<and> map base_value (rd_surplus_conversions rd) = [1 / 5]
            \<longrightarrow> \<bar>revenue_base_currency rd - 7 / 10\<bar> \<le> 1 / 10 ^ 9)"
proof -
  from assms obtain acc c1 where
    loop: "reconcile_loop cl now (get_base_currency chain) chain blk changes recon_init cache
             = (Inr acc, c1)" and
    rd: "revenue_base_currency rd = base_currency_change acc + total_surplus_value acc"
        "direct_base_change rd = base_currency_change acc"
        "rd_surplus_conversions rd = surplus_conversions acc"
    by (auto simp: reconcile_def Let_def split: prod.splits sum.splits)
  from reconcile_loop_sums[OF loop]
  have direct: "base_currency_change acc
                  = sum_list (map bc_net_change
                      (filter (\<lambda>c. bc_token_symbol c = get_base_currency chain) changes))"
    and surplus: "total_surplus_value acc = sum_list (map base_value (surplus_conversions acc))"
    by (auto simp: recon_init_def)
  have total: "revenue_base_currency rd
                 = direct_base_change rd + sum_list (map base_value (rd_surplus_conversions rd))"
    using rd surplus by simp
  moreover have "direct_base_change rd
      = sum_list (map bc_net_change
          (filter (\<lambda>c. bc_token_symbol c = get_base_currency chain) changes))"
    using rd direct by simp
  moreover have "direct_base_change rd = 1 / 2 \<and> map base_value (rd_surplus_conversions rd) = [1 / 5]
      \<longrightarrow> \<bar>revenue_base_currency rd - 7 / 10\<bar> \<le> 1 / 10 ^ 9"
    using total by auto
  ultimately show ?thesis by blast
qed

lemma reconcile_example:
  "\<exists>rd c. reconcile quiet_clients 1000 [eth_half, dai_640] 1 None empty_cache = (Inr rd, c) \<and>
          direct_base_change rd = 1 / 2 \<and> map base_value (rd_surplus_conversions rd) = [1 / 5]"
  by (simp add: recon_eval oracle_eval eth_half_def dai_640_def quiet_clients_def
      split: prod.splits)

theorem C8_total_is_direct_plus_surplus_witness:
  "(case fst (reconcile quiet_clients 1000 [eth_half, dai_640] 1 None empty_cache) of
      Inr rd \<Rightarrow> direct_base_change rd = 1 / 2 \<and>
               map base_value (rd_surplus_conversions rd) = [1 / 5] \<and>
               \<bar>revenue_base_currency rd - 7 / 10\<bar> \<le> 1 / 10 ^ 9
    | Inl e \<Rightarrow> False)"
proof -
  from reconcile_example obtain rd c where
    run: "reconcile quiet_clients 1000 [eth_half, dai_640] 1 None empty_cache = (Inr rd, c)" and
    parts: "direct_base_change rd = 1 / 2" "map base_value (rd_surplus_conversions rd) = [1 / 5]"
    by auto
  from C8_total_is_direct_plus_surplus[OF run] parts
  have "\<bar>revenue_base_currency rd - 7 / 10\<bar> \<le> 1 / 10 ^ 9" by blast
  with run parts show ?thesis by simp
qed

text \<open>
  C5. When the token is known, the cache holds no valid entry for it and the Chainlink
  client returns a price, \<open>get_token_price\<close> returns that price with source
  \<open>chainlink\<close>, whatever the DEX client, the CoinGecko client and the fallback table
  would give.
\<close>

theorem C5_chainlink_precedence:
  assumes tok: "resolve_token chain addr = Inr (Some info)"
    and nocache: "fst (get_price cache now chain (symbol info) blk) = None"
    and feed: "chainlink_feed info = Some feed" "feed \<noteq> []"
    and quote: "fst (chainlink_call cl feed info chain blk
                       (snd (get_price cache now chain (symbol info) blk))) = Quote p c"
  shows "\<exists>r. fst (get_token_price cl now addr chain blk cache) = Inr (Some r) \<and>
             source r = ''chainlink'' \<and> price_usd r = p \<and> confidence r = c"
  using assms
  by (auto simp: get_token_price_def waterfall_def truthy_str_def get_chainlink_price_def
      result_of_outcome_def Let_def split: prod.splits)

theorem C5_chainlink_precedence_witness:
  "(case fst (get_token_price busy_clients 1000 ''0x0000000000000000000000000000000000000000''
               1 (Some 18000000) empty_cache) of
      Inr (Some r) \<Rightarrow> source r = ''chainlink'' \<and> price_usd r = 3000
    | Inr None \<Rightarrow> False
    | Inl e \<Rightarrow> False)"
proof -
  let ?info = "snd (hd (TOKENS 1))"
  let ?feed = "''0x5f4eC3Df9cbd43714FE2740f5E3616155c5b8419''"
  have tok: "resolve_token 1 ''0x0000000000000000000000000000000000000000'' = Inr (Some ?info)"
    by (simp add: oracle_eval)
  have nocache: "fst (get_price empty_cache 1000 1 (symbol ?info) (Some 18000000)) = None"
    by (simp add: get_price_def empty_cache_def load_disk_cache_def Let_def)
  have feed: "chainlink_feed ?info = Some ?feed" "?feed \<noteq> []"
    by (simp_all add: TOKENS_def mk_token_def)
  have quote: "fst (chainlink_call busy_clients ?feed ?info 1 (Some 18000000)
                      (snd (get_price empty_cache 1000 1 (symbol ?info) (Some 18000000))))
               = Quote 3000 (49 / 50)"
    by (simp add: chainlink_call_def busy_clients_def)
  from C5_chainlink_precedence[OF tok nocache feed quote]
  show ?thesis by auto
qed

text \<open>
  C3, as the code has it. When \<open>get_token_price\<close> finds no price for a token,
  \<open>convert_token_to_usd\<close> returns \<open>None\<close> (no value and no exception, not 0) and so does
  \<open>normalize_to_base_currency\<close>; \<open>_convert_surplus_token\<close> replaces the \<open>None\<close> by 0.0,
  so the loop goes on to the remaining changes with the surplus total unchanged, and the
  reconciliation of that asset alone completes with a total of zero.
\<close>

theorem C3_unavailable_price:
  assumes unavailable: "fst (get_token_price cl now addr chain blk cache) = Inr None"
  shows "fst (convert_token_to_usd cl now addr amount chain blk cache) = Inr None \<and>
         fst (normalize_to_base_currency cl now addr amount chain blk cache) = Inr None \<and>
         (token_address change = addr \<and> bc_net_change change = amount \<longrightarrow>
            (\<exists>conv c1. convert_surplus_token cl now change chain blk cache = (Inr conv, c1) \<and>
               base_value conv = 0 \<and>
               (bc_token_symbol change \<noteq> base \<and> is_surplus change \<and> 0 < amount \<longrightarrow>
                  reconcile_loop cl now base chain blk (change # rest) acc cache
                    = reconcile_loop cl now base chain blk rest
                        (acc\<lparr>surplus_conversions := surplus_conversions acc @ [conv],
                             total_surplus_value := total_surplus_value acc\<rparr>) c1))) \<and>
         (token_address change = addr \<and> bc_net_change change = amount \<and>
          bc_token_symbol change \<noteq> get_base_currency chain \<and> is_surplus change \<and> 0 < amount \<longrightarrow>
            (\<exists>rd c2. reconcile cl now [change] chain blk cache = (Inr rd, c2) \<and>
                     map base_value (rd_surplus_conversions rd) = [0] \<and>
                     revenue_base_currency rd = 0))"
proof -
  have conv: "fst (convert_token_to_usd cl now addr amount chain blk cache) = Inr None"
    using unavailable
    by (auto simp: convert_token_to_usd_def split: prod.splits sum.splits option.splits)
  have norm: "fst (normalize_to_base_currency cl now addr amount chain blk cache) = Inr None"
    using conv
    by (auto simp: normalize_to_base_currency_def split: prod.splits sum.splits option.splits)
  have surplus0: "token_address change = addr \<and> bc_net_change change = amount \<longrightarrow>
            (\<exists>conv c1. convert_surplus_token cl now change chain blk cache = (Inr conv, c1) \<and>
                       base_value conv = 0)"
    using norm by (auto simp: convert_surplus_token_def Let_def split: prod.splits sum.splits)
  have surplus: "token_address change = addr \<and> bc_net_change change = amount \<longrightarrow>
            (\<exists>conv c1. convert_surplus_token cl now change chain blk cache = (Inr conv, c1) \<and>
               base_value conv = 0 \<and>
               (bc_token_symbol change \<noteq> base \<and> is_surplus change \<and> 0 < amount \<longrightarrow>
                  reconcile_loop cl now base chain blk (change # rest) acc cache
                    = reconcile_loop cl now base chain blk rest
                        (acc\<lparr>surplus_conversions := surplus_conversions acc @ [conv],
                             total_surplus_value := total_surplus_value acc\<rparr>) c1))"
  proof
    assume h: "token_address change = addr \<and> bc_net_change change = amount"
    with surplus0 obtain conv c1 where
      cs: "convert_surplus_token cl now change chain blk cache = (Inr conv, c1)"
          "base_value conv = 0"
      by blast
    have "bc_token_symbol change \<noteq> base \<and> is_surplus change \<and> 0 < amount \<longrightarrow>
            reconcile_loop cl now base chain blk (change # rest) acc cache
              = reconcile_loop cl now base chain blk rest
                  (acc\<lparr>surplus_conversions := surplus_conversions acc @ [conv],
                       total_surplus_value := total_surplus_value acc\<rparr>) c1"
      using h cs by simp
    with cs show "\<exists>conv c1. convert_surplus_token cl now change chain blk cache = (Inr conv, c1) \<and>
               base_value conv = 0 \<and>
               (bc_token_symbol change \<noteq> base \<and> is_surplus change \<and> 0 < amount \<longrightarrow>
                  reconcile_loop cl now base chain blk (change # rest) acc cache
                    = reconcile_loop cl now base chain blk rest
                        (acc\<lparr>surplus_conversions := surplus_conversions acc @ [conv],
                             total_surplus_value := total_surplus_value acc\<rparr>) c1)"
      by blast
  qed
  have whole: "token_address change = addr \<and> bc_net_change change = amount \<and>
          bc_token_symbol change \<noteq> get_base_currency chain \<and> is_surplus change \<and> 0 < amount \<longrightarrow>
            (\<exists>rd c2. reconcile cl now [change] chain blk cache = (Inr rd, c2) \<and>
                     map base_value (rd_surplus_conversions rd) = [0] \<and>
                     revenue_base_currency rd = 0)"
  proof
    assume h: "token_address change = addr \<and> bc_net_change change = amount \<and>
          bc_token_symbol change \<noteq> get_base_currency chain \<and> is_surplus change \<and> 0 < amount"
    with surplus0 obtain conv c1 where
      cs: "convert_surplus_token cl now change chain blk cache = (Inr conv, c1)"
          "base_value conv = 0"
      by blast
    obtain bp c2 where bp: "get_base_currency_price cl now chain blk c1 = (Inr bp, c2)"
      using get_base_currency_price_no_error[of cl now chain blk c1]
      by (cases "get_base_currency_price cl now chain blk c1";
          cases "fst (get_base_currency_price cl now chain blk c1)") auto
    from h cs bp show "\<exists>rd c2. reconcile cl now [change] chain blk cache = (Inr rd, c2) \<and>
                     map base_value (rd_surplus_conversions rd) = [0] \<and>
                     revenue_base_currency rd = 0"
      by (simp add: reconcile_def recon_init_def Let_def)
  qed
  from conv norm surplus whole show ?thesis by blast
qed

theorem C3_unavailable_price_witness:
  "fst (get_token_price quiet_clients 1000 ''0x1111111111111111111111111111111111111111''
          1 None empty_cache) = Inr None \<and>
   fst (convert_token_to_usd quiet_clients 1000 ''0x1111111111111111111111111111111111111111''
          5 1 None empty_cache) = Inr None \<and>
   (case fst (reconcile quiet_clients 1000 [unknown_surplus] 1 None empty_cache) of
      Inr rd \<Rightarrow> revenue_base_currency rd = 0 \<and> map base_value (rd_surplus_conversions rd) = [0]
    | Inl e \<Rightarrow> False)"
proof -
  have un: "fst (get_token_price quiet_clients 1000 ''0x1111111111111111111111111111111111111111''
             1 None empty_cache) = Inr None"
    by (simp add: get_token_price_def resolve_token_def get_token_by_address_def
        is_native_token_def TOKENS_def mk_token_def lower_def lower_char_def)
  have ch: "token_address unknown_surplus = ''0x1111111111111111111111111111111111111111'' \<and>
            bc_net_change unknown_surplus = 5 \<and>
            bc_token_symbol unknown_surplus \<noteq> get_base_currency 1 \<and>
            is_surplus unknown_surplus \<and> (0::real) < 5"
    by (simp add: unknown_surplus_def get_base_currency_def)
  from C3_unavailable_price[OF un, where amount = 5 and change = unknown_surplus
      and base = "''ETH''" and rest = "[]" and acc = recon_init]
  have conv: "fst (convert_token_to_usd quiet_clients 1000
                ''0x1111111111111111111111111111111111111111'' 5 1 None empty_cache) = Inr None"
    and whole: "token_address unknown_surplus = ''0x1111111111111111111111111111111111111111'' \<and>
            bc_net_change unknown_surplus = 5 \<and>
            bc_token_symbol unknown_surplus \<noteq> get_base_currency 1 \<and>
            is_surplus unknown_surplus \<and> (0::real) < 5 \<longrightarrow>
            (\<exists>rd c2. reconcile quiet_clients 1000 [unknown_surplus] 1 None empty_cache = (Inr rd, c2) \<and>
                     map base_value (rd_surplus_conversions rd) = [0] \<and>
                     revenue_base_currency rd = 0)"
    by blast+
  from whole ch have
    "\<exists>rd c2. reconcile quiet_clients 1000 [unknown_surplus] 1 None empty_cache = (Inr rd, c2) \<and>
             map base_value (rd_surplus_conversions rd) = [0] \<and> revenue_base_currency rd = 0"
    by (rule mp)
  then obtain rd c2 where
    "reconcile quiet_clients 1000 [unknown_surplus] 1 None empty_cache = (Inr rd, c2)"
    "map base_value (rd_surplus_conversions rd) = [0]" "revenue_base_currency rd = 0"
    by auto
  with un conv show ?thesis by simp
qed

text \<open>
  For a token that no source can price, \<open>convert_token_to_usd\<close> returns \<open>None\<close>, which is
  not the number 0.
\<close>

theorem C3_returns_none_counterexample:
  "fst (convert_token_to_usd quiet_clients 1000 ''0x1111111111111111111111111111111111111111''
          5 1 None empty_cache) = Inr None \<and>
   fst (convert_token_to_usd quiet_clients 1000 ''0x1111111111111111111111111111111111111111''
          5 1 None empty_cache) \<noteq> Inr (Some 0)"
  by (simp add: convert_token_to_usd_def get_token_price_def resolve_token_def
      get_token_by_address_def is_native_token_def TOKENS_def mk_token_def lower_def
      lower_char_def)

section \<open>Properties of address checksumming\<close>

text \<open>
  C9. Checksumming is not idempotent on every string: the normalisation removes every
  \<open>0x\<close> and not only the prefix, so \<open>00xx\<close> checksums to \<open>0x0x\<close>, and that to \<open>0x\<close>,
  whatever the digest is.
\<close>

theorem C9_checksum_not_idempotent:
  "to_checksum_address keccak_digit ''00xx'' = ''0x0x'' \<and>
   to_checksum_address keccak_digit (to_checksum_address keccak_digit ''00xx'') = ''0x''"
  by (simp add: to_checksum_address_def lower_def lower_char_def Let_def)

lemma lower_char_idem: "lower_char (lower_char c) = lower_char c"
  by (auto simp: lower_char_def Let_def)

lemma lower_idem: "lower (lower s) = lower s"
  by (simp add: lower_def lower_char_idem)

lemma set_remove_0x: "set (remove_0x s) \<subseteq> set s"
  by (induction s rule: remove_0x.induct) auto

lemma lower_fixed: "(\<And>c. c \<in> set s \<Longrightarrow> lower_char c = c) \<Longrightarrow> lower s = s"
  by (simp add: lower_def map_idI)

lemma lower_remove_0x_lower: "lower (remove_0x (lower s)) = remove_0x (lower s)"
proof (rule lower_fixed)
  fix c assume "c \<in> set (remove_0x (lower s))"
  with set_remove_0x have "c \<in> set (lower s)" by blast
  then show "lower_char c = c" by (auto simp: lower_def lower_char_idem)
qed

lemma remove_0x_no_x: "CHR ''x'' \<notin> set s \<Longrightarrow> remove_0x s = s"
  by (induction s rule: remove_0x.induct) auto

lemma length_remove_0x: "length (remove_0x s) \<le> length s"
  by (induction s rule: remove_0x.induct) auto

lemma remove_0x_same_length: "length (remove_0x s) = length s \<Longrightarrow> remove_0x s = s"
proof (induction s rule: remove_0x.induct)
  case (1 a b rest)
  show ?case
  proof (cases "a = CHR ''0'' \<and> b = CHR ''x''")
    case True
    with "1.prems" length_remove_0x[of rest] show ?thesis by simp
  next
    case False
    with "1.prems" have "length (remove_0x (b # rest)) = length (b # rest)" by simp
    with "1.IH"(2) False have eq: "remove_0x (b # rest) = b # rest" by blast
    from False have "remove_0x (a # b # rest) = a # remove_0x (b # rest)"
      by (simp only: remove_0x.simps if_False)
    with eq show ?thesis by (simp only:)
  qed
qed simp_all

lemma x_not_lower_hex: "\<not> is_lower_hex (CHR ''x'')"
  by (simp add: is_lower_hex_def)

lemma lower_hex_no_x: "list_all is_lower_hex s \<Longrightarrow> CHR ''x'' \<notin> set s"
  using x_not_lower_hex unfolding list_all_iff by blast

lemma lower_hex_table:
  "list_all (\<lambda>c. lower_char (upper_char c) = c \<and> lower_char c = c) ''0123456789abcdef''"
  by (simp add: lower_char_def upper_char_def char_of_def bit_0)

lemma lower_checksum_char:
  assumes "is_lower_hex c"
  shows "lower_char (if is_digit_char c then c else if d \<ge> (8::nat) then upper_char c else c) = c"
proof -
  from assms have "c \<in> set ''0123456789abcdef''" by (simp only: is_lower_hex_def)
  with lower_hex_table have "lower_char (upper_char c) = c \<and> lower_char c = c"
    unfolding list_all_iff by blast
  then show ?thesis by simp
qed

lemma lower_checksum_chars:
  "list_all is_lower_hex s \<Longrightarrow> lower (checksum_chars digit i s) = s"
proof (induction s arbitrary: i)
  case Nil
  then show ?case by (simp add: lower_def)
next
  case (Cons c cs)
  then have "lower (checksum_chars digit (Suc i) cs) = cs" by simp
  moreover from Cons.prems have "is_lower_hex c" by simp
  ultimately show ?case
    using lower_checksum_char[of c "digit i"] by (simp add: lower_def)
qed

lemma length_checksum_chars: "length (checksum_chars digit i s) = length s"
  by (induction s arbitrary: i) auto

lemma to_checksum_address_unfold:
  "to_checksum_address k a =
     (if length (remove_0x (lower a)) = 40 \<and> list_all is_lower_hex (remove_0x (lower a))
      then ''0x'' @ checksum_chars (k (remove_0x (lower a))) 0 (remove_0x (lower a))
      else ''0x'' @ remove_0x (lower a))"
  by (simp add: to_checksum_address_def Let_def)

lemma to_checksum_address_valid:
  "length (remove_0x (lower a)) = 40 \<Longrightarrow> list_all is_lower_hex (remove_0x (lower a)) \<Longrightarrow>
   to_checksum_address k a
     = ''0x'' @ checksum_chars (k (remove_0x (lower a))) 0 (remove_0x (lower a))"
  by (simp only: to_checksum_address_unfold simp_thms if_True)

lemma to_checksum_address_invalid:
  "\<not> (length (remove_0x (lower a)) = 40 \<and> list_all is_lower_hex (remove_0x (lower a))) \<Longrightarrow>
   to_checksum_address k a = ''0x'' @ remove_0x (lower a)"
  by (simp only: to_checksum_address_unfold if_False)

lemma length_to_checksum_address:
  "length (to_checksum_address k a) = 2 + length (remove_0x (lower a))"
  by (simp add: to_checksum_address_unfold length_checksum_chars)

lemma lower_0x_append: "lower s = s \<Longrightarrow> lower (''0x'' @ s) = ''0x'' @ s"
  by (simp add: lower_def lower_char_def)

lemma remove_0x_prefixed: "remove_0x (''0x'' @ s) = remove_0x s"
  by simp

lemma remove_0x_shorter: "remove_0x s \<noteq> s \<Longrightarrow> length (remove_0x s) < length s"
proof -
  assume "remove_0x s \<noteq> s"
  with remove_0x_same_length[of s] have "length (remove_0x s) \<noteq> length s" by blast
  with length_remove_0x[of s] show ?thesis by linarith
qed

text \<open>A second application sees the normalised text of the first, with its \<open>0x\<close> removed again.\<close>

lemma normalise_checksummed:
  "remove_0x (lower (to_checksum_address k a)) = remove_0x (remove_0x (lower a))"
proof (cases "length (remove_0x (lower a)) = 40 \<and> list_all is_lower_hex (remove_0x (lower a))")
  case True
  then have hex: "list_all is_lower_hex (remove_0x (lower a))"
    and len: "length (remove_0x (lower a)) = 40" by blast+
  let ?s = "remove_0x (lower a)"
  let ?cc = "checksum_chars (k ?s) 0 ?s"
  have "lower ?cc = ?s" by (rule lower_checksum_chars[OF hex])
  then have "lower (''0x'' @ ?cc) = ''0x'' @ ?s"
    by (simp add: lower_def lower_char_def)
  then have "remove_0x (lower (''0x'' @ ?cc)) = remove_0x ?s"
    by (simp only: remove_0x_prefixed)
  then show ?thesis by (simp only: to_checksum_address_valid[OF len hex])
next
  case False
  let ?s = "remove_0x (lower a)"
  have "lower (''0x'' @ ?s) = ''0x'' @ ?s"
    by (rule lower_0x_append[OF lower_remove_0x_lower])
  then have "remove_0x (lower (''0x'' @ ?s)) = remove_0x ?s"
    by (simp only: remove_0x_prefixed)
  then show ?thesis by (simp only: to_checksum_address_invalid[OF False])
qed

text \<open>
  Exactly the strings whose normalised form still contains a removable \<open>0x\<close> break
  idempotence; every 40-digit hexadecimal address, with or without prefix, is outside
  that set.
\<close>

lemma to_checksum_address_idempotent_iff:
  "to_checksum_address k (to_checksum_address k a) = to_checksum_address k a
     \<longleftrightarrow> remove_0x (remove_0x (lower a)) = remove_0x (lower a)"
proof
  assume eq: "to_checksum_address k (to_checksum_address k a) = to_checksum_address k a"
  show "remove_0x (remove_0x (lower a)) = remove_0x (lower a)"
  proof (rule ccontr)
    assume "remove_0x (remove_0x (lower a)) \<noteq> remove_0x (lower a)"
    then have "length (remove_0x (remove_0x (lower a))) < length (remove_0x (lower a))"
      by (rule remove_0x_shorter)
    moreover have "length (to_checksum_address k (to_checksum_address k a))
                     = 2 + length (remove_0x (remove_0x (lower a)))"
      by (simp only: length_to_checksum_address normalise_checksummed)
    moreover have "length (to_checksum_address k a) = 2 + length (remove_0x (lower a))"
      by (rule length_to_checksum_address)
    moreover from eq have "length (to_checksum_address k (to_checksum_address k a))
                     = length (to_checksum_address k a)" by (simp only:)
    ultimately show False by linarith
  qed
next
  assume fixed: "remove_0x (remove_0x (lower a)) = remove_0x (lower a)"
  have norm: "remove_0x (lower (to_checksum_address k a)) = remove_0x (lower a)"
    by (simp only: normalise_checksummed fixed)
  show "to_checksum_address k (to_checksum_address k a) = to_checksum_address k a"
    by (simp only: to_checksum_address_unfold[of k "to_checksum_address k a"] norm
        to_checksum_address_unfold[of k a, symmetric])
qed

lemma hex_table_lower:
  "list_all (\<lambda>c. lower_char c \<noteq> CHR ''x'') ''0123456789abcdefABCDEF''"
  by (simp add: lower_char_def char_of_def bit_0)

lemma lower_hex_address_no_x: "list_all is_hex_char h \<Longrightarrow> CHR ''x'' \<notin> set (lower h)"
proof
  assume hex: "list_all is_hex_char h" and "CHR ''x'' \<in> set (lower h)"
  then obtain c where c: "c \<in> set h" "lower_char c = CHR ''x''"
    by (auto simp: lower_def)
  from hex c(1) have "is_hex_char c" unfolding list_all_iff by blast
  then have "c \<in> set ''0123456789abcdefABCDEF''"
    by (simp only: is_hex_char_def)
  with hex_table_lower have "lower_char c \<noteq> CHR ''x''"
    unfolding list_all_iff by blast
  with c show False by blast
qed

text \<open>On hexadecimal addresses, with or without the prefix, checksumming is idempotent.\<close>

lemma to_checksum_address_idempotent_hex:
  assumes "list_all is_hex_char h" and "a = h \<or> a = ''0x'' @ h"
  shows "to_checksum_address k (to_checksum_address k a) = to_checksum_address k a"
proof -
  have nox: "remove_0x (lower h) = lower h"
    by (rule remove_0x_no_x[OF lower_hex_address_no_x[OF assms(1)]])
  have "lower (''0x'' @ h) = ''0x'' @ lower h"
    by (simp add: lower_def lower_char_def)
  then have "remove_0x (lower (''0x'' @ h)) = lower h"
    using nox by (simp only: remove_0x_prefixed)
  with nox assms(2) have "remove_0x (lower a) = lower h" by blast
  with nox have "remove_0x (remove_0x (lower a)) = remove_0x (lower a)" by (simp only:)
  then show ?thesis by (simp only: to_checksum_address_idempotent_iff)
qed

section \<open>Properties of the tool call executor\<close>

lemma execute_tool_calls_map:
  "execute_tool_calls ex calls par = map (execute_tool_call ex) calls"
proof -
  have "map2 handle_gathered calls (gather_results ex calls) = map (execute_tool_call ex) calls"
    by (induction calls) (simp_all add: gather_results_def handle_gathered_def)
  then show ?thesis by (simp add: execute_tool_calls_def)
qed

text \<open>
  C7, as the code has it. A batch, parallel or sequential, returns one record per call and
  each record is what its own call alone produces. For a registered capability: a result
  returned in time gives status \<open>COMPLETED\<close> with that result; an exception other than
  \<open>asyncio.TimeoutError\<close> gives status \<open>FAILED\<close> with the exception text in the error field;
  an expired timeout, and likewise a \<open>TimeoutError\<close> raised by the capability itself, gives
  status \<open>TIMEOUT\<close>.
\<close>

theorem C7_batch_statuses:
  "length (execute_tool_calls ex calls par) = length calls \<and>
   (\<forall>i < length calls. execute_tool_calls ex calls par ! i = execute_tool_call ex (calls ! i)) \<and>
   (registry ex (tc_name tc) = Some tool \<longrightarrow>
      (tool (parameters tc) = Returns r \<longrightarrow>
         status (execute_tool_call ex tc) = COMPLETED \<and>
         result (execute_tool_call ex tc) = Some r) \<and>
      (tool (parameters tc) = Raises e \<and> \<not> is_timeout_error e \<longrightarrow>
         status (execute_tool_call ex tc) = FAILED \<and>
         error (execute_tool_call ex tc) = Some (str_of e)) \<and>
      (tool (parameters tc) = Overruns \<or> (tool (parameters tc) = Raises e \<and> is_timeout_error e) \<longrightarrow>
         status (execute_tool_call ex tc) = TIMEOUT \<and>
         error (execute_tool_call ex tc) = Some (timed_out_message ex)))"
  by (auto simp: execute_tool_calls_map execute_tool_call_def Let_def)

lemma three_calls_run:
  "map status (execute_tool_calls three_tools three_calls True) = [COMPLETED, FAILED, TIMEOUT] \<and>
   map status (execute_tool_calls three_tools three_calls False) = [COMPLETED, FAILED, TIMEOUT]"
  by (simp add: execute_tool_calls_map execute_tool_call_def three_tools_def three_calls_def
      new_call_def Let_def)

theorem C7_batch_statuses_witness:
  "map status (execute_tool_calls three_tools three_calls True) = [COMPLETED, FAILED, TIMEOUT] \<and>
   registry three_tools (tc_name (new_call ''call_1'' ''failing_tool''))
     = Some (\<lambda>p. Raises (ValueError ''boom'')) \<and>
   status (execute_tool_call three_tools (new_call ''call_1'' ''failing_tool'')) = FAILED \<and>
   error (execute_tool_call three_tools (new_call ''call_1'' ''failing_tool'')) = Some ''boom''"
proof -
  have reg: "registry three_tools (tc_name (new_call ''call_1'' ''failing_tool''))
               = Some (\<lambda>p. Raises (ValueError ''boom''))"
    by (simp add: three_tools_def new_call_def)
  have run: "(\<lambda>p::unit. Raises (ValueError ''boom'') :: unit tool_run)
               (parameters (new_call ''call_1'' ''failing_tool'')) = Raises (ValueError ''boom'') \<and>
             \<not> is_timeout_error (ValueError ''boom'')"
    by simp
  from C7_batch_statuses[of three_tools three_calls True "new_call ''call_1'' ''failing_tool''"
      "\<lambda>p. Raises (ValueError ''boom'')" ok_result "ValueError ''boom''"] reg run
  have "status (execute_tool_call three_tools (new_call ''call_1'' ''failing_tool'')) = FAILED \<and>
        error (execute_tool_call three_tools (new_call ''call_1'' ''failing_tool''))
          = Some (str_of (ValueError ''boom''))"
    by blast
  with reg three_calls_run show ?thesis by simp
qed

text \<open>
  A capability that raises \<open>asyncio.TimeoutError\<close> itself is recorded as \<open>TIMEOUT\<close>, and the
  error field holds the executor's message, not the text of the exception.
\<close>

theorem C7_raised_timeout_counterexample:
  "registry three_tools ''upstream_tool'' = Some (\<lambda>p. Raises (TimeoutError ''upstream timed out'')) \<and>
   status (execute_tool_call three_tools (new_call ''call_3'' ''upstream_tool'')) = TIMEOUT \<and>
   error (execute_tool_call three_tools (new_call ''call_3'' ''upstream_tool''))
     = Some ''Tool call timed out after 30.0s''"
  by (simp add: execute_tool_call_def three_tools_def new_call_def timed_out_message_def)

section \<open>Which tokens have no price\<close>

text \<open>
  The fallback table has a non-zero rate for every token of the registry, so the waterfall
  never comes back empty for a token that the registry knows: \<open>get_token_price\<close> returns
  \<open>None\<close> exactly for an address that is neither registered nor native.
\<close>

lemma fallback_covers_registry:
  "list_all (\<lambda>(s, info). case map_of (fallback_rates 1) (symbol info) of
                             Some p \<Rightarrow> p \<noteq> 0 | None \<Rightarrow> False) (TOKENS 1) \<and>
   list_all (\<lambda>(s, info). case map_of (fallback_rates 56) (symbol info) of
                             Some p \<Rightarrow> p \<noteq> 0 | None \<Rightarrow> False) (TOKENS 56)"
  by (simp add: TOKENS_def fallback_rates_def mk_token_def)

lemma registered_has_fallback:
  assumes "info \<in> snd ` set (TOKENS chain)"
  shows "\<exists>p. map_of (fallback_rates chain) (symbol info) = Some p \<and> p \<noteq> 0"
proof -
  from assms have nonempty: "TOKENS chain \<noteq> []" by auto
  then have "chain = 1 \<or> chain = 56" by (auto simp: TOKENS_def split: if_splits)
  then show ?thesis
  proof
    assume c: "chain = 1"
    with assms fallback_covers_registry
    have "case map_of (fallback_rates 1) (symbol info) of Some p \<Rightarrow> p \<noteq> 0 | None \<Rightarrow> False"
      unfolding list_all_iff by fastforce
    with c show ?thesis by (auto split: option.splits)
  next
    assume c: "chain = 56"
    with assms fallback_covers_registry
    have "case map_of (fallback_rates 56) (symbol info) of Some p \<Rightarrow> p \<noteq> 0 | None \<Rightarrow> False"
      unfolding list_all_iff by fastforce
    with c show ?thesis by (auto split: option.splits)
  qed
qed

lemma resolve_token_registered:
  "resolve_token chain addr = Inr (Some info) \<Longrightarrow> info \<in> snd ` set (TOKENS chain)"
proof -
  assume r: "resolve_token chain addr = Inr (Some info)"
  have a: "\<And>x. get_token_by_address chain addr = Some x \<Longrightarrow> x \<in> snd ` set (TOKENS chain)"
    unfolding get_token_by_address_def
    by (metis (no_types, lifting) find_Some_iff nth_mem set_map)
  have b: "\<And>x s. get_token_info chain s = Some x \<Longrightarrow> x \<in> snd ` set (TOKENS chain)"
    unfolding get_token_info_def by (metis map_of_SomeD snd_conv image_eqI)
  from r a b show ?thesis
    by (auto simp: resolve_token_def get_native_token_info_def split: option.splits if_splits)
qed

lemma waterfall_finds_price:
  assumes "resolve_token chain addr = Inr (Some info)"
  shows "fst (waterfall cl now info chain blk cache) \<noteq> None"
proof -
  from registered_has_fallback[OF resolve_token_registered[OF assms]]
  obtain p where p: "map_of (fallback_rates chain) (symbol info) = Some p" "p \<noteq> 0" by blast
  then have "\<And>c. fst (get_fallback_price now info chain blk c) \<noteq> None"
    by (simp add: get_fallback_price_def)
  then show ?thesis
    by (auto simp: waterfall_def Let_def split: prod.splits option.splits)
qed

lemma price_unavailable_iff:
  "fst (get_token_price cl now addr chain blk cache) = Inr None
     \<longleftrightarrow> resolve_token chain addr = Inr None"
proof (cases "resolve_token chain addr")
  case (Inl e)
  then show ?thesis by (simp add: get_token_price_def)
next
  case (Inr t)
  show ?thesis
  proof (cases t)
    case None
    with Inr show ?thesis by (simp add: get_token_price_def)
  next
    case (Some info)
    with Inr have r: "resolve_token chain addr = Inr (Some info)" by simp
    have w: "\<And>c x y. waterfall cl now info chain blk c = (x, y) \<Longrightarrow> x \<noteq> None"
      using waterfall_finds_price[OF r, of cl now blk] by (metis fst_conv)
    have "fst (get_token_price cl now addr chain blk cache) \<noteq> Inr None"
      using r w by (auto simp: get_token_price_def Let_def split: prod.splits option.splits)
    with r show ?thesis by simp
  qed
qed
section \<open>Properties of the analysis of the harness output\<close>

lemma analysis_finish_success:
  "exploit_executed_successfully (analysis_finish out a3) \<longleftrightarrow>
     exploit_executed_successfully a3 \<or>
     contains ''EXPLOIT_CAUSED_STATE_CHANGES: true'' out \<or>
     contains ''STORAGE_CHANGE_DETECTED'' out \<or>
     (case first_pattern_match tokens_patterns out of
        None \<Rightarrow> 0 < sum_list (map snd (tokens_extracted a3))
      | Some n \<Rightarrow> 0 < sum_list (map snd (AList.update
                       (case search_target out of Some t \<Rightarrow> t | None \<Rightarrow> ''unknown_token'')
                       n (tokens_extracted a3)))) \<or>
     0 < eth_gained a3"
  by (auto simp: analysis_finish_def Let_def split: option.splits)

lemma analysis_markers_fields:
  "exploit_executed_successfully (analysis_markers out)
     = contains ''EXPLOIT_EXECUTED_SUCCESSFULLY: true'' out"
  "eth_gained (analysis_markers out) = 0"
  "tokens_extracted (analysis_markers out) = []"
  by (simp_all add: analysis_markers_def analysis_init_def Let_def)

text \<open>
  C6, as the code has it. The analysis returns unless the gained amount is too large for a
  float, and what it returns reports \<open>exploit_executed_successfully\<close> exactly when the
  harness run itself succeeded and at least one signal holds: the output has the marker of
  a completed entry-point call; it has a marker of changed storage; the extracted token
  amount is above zero; or the gained amount of base currency is above zero. Each of the
  two amounts is the number that follows the first marker of its priority list that
  matches in the output, so a positive number after a later marker does not count once an
  earlier marker matches with 0. After a failed run the analysis reports false whatever
  the output holds.
\<close>

theorem C6_success_signals:
  "(\<not> (er_success er \<and>
        (\<exists>w. first_pattern_match eth_gained_patterns (er_output er) = Some w \<and>
             float_overflow (real w / 10 ^ 18))) \<longrightarrow>
      (\<exists>a. analyze_execution_result er ib = Inr a)) \<and>
   (analyze_execution_result er ib = Inr a \<longrightarrow>
      (exploit_executed_successfully a \<longleftrightarrow>
         er_success er \<and>
         (contains ''EXPLOIT_EXECUTED_SUCCESSFULLY: true'' (er_output er) \<or>
          contains ''EXPLOIT_CAUSED_STATE_CHANGES: true'' (er_output er) \<or>
          contains ''STORAGE_CHANGE_DETECTED'' (er_output er) \<or>
          (\<exists>n. first_pattern_match tokens_patterns (er_output er) = Some n \<and> 0 < n) \<or>
          (\<exists>w. first_pattern_match eth_gained_patterns (er_output er) = Some w \<and> 0 < w))))"
proof -
  have returns: "\<not> (er_success er \<and>
        (\<exists>w. first_pattern_match eth_gained_patterns (er_output er) = Some w \<and>
             float_overflow (real w / 10 ^ 18))) \<longrightarrow>
      (\<exists>a. analyze_execution_result er ib = Inr a)"
    by (auto simp: analyze_execution_result_def Let_def split: option.splits)
  have decides: "analyze_execution_result er ib = Inr a \<longrightarrow>
      (exploit_executed_successfully a \<longleftrightarrow>
         er_success er \<and>
         (contains ''EXPLOIT_EXECUTED_SUCCESSFULLY: true'' (er_output er) \<or>
          contains ''EXPLOIT_CAUSED_STATE_CHANGES: true'' (er_output er) \<or>
          contains ''STORAGE_CHANGE_DETECTED'' (er_output er) \<or>
          (\<exists>n. first_pattern_match tokens_patterns (er_output er) = Some n \<and> 0 < n) \<or>
          (\<exists>w. first_pattern_match eth_gained_patterns (er_output er) = Some w \<and> 0 < w)))"
  proof (cases "er_success er")
    case False
    then show ?thesis
      by (auto simp: analyze_execution_result_def analysis_init_def)
  next
    case True
    show ?thesis
    proof (cases "first_pattern_match eth_gained_patterns (er_output er)")
      case None
      with True show ?thesis
        by (auto simp: analyze_execution_result_def Let_def analysis_finish_success
            analysis_markers_fields split: option.splits)
    next
      case (Some w)
      with True show ?thesis
        by (auto simp: analyze_execution_result_def Let_def analysis_finish_success
            analysis_markers_fields max_def split: option.splits if_splits)
    qed
  qed
  from returns decides show ?thesis by blast
qed

lemma tokens_example: "first_pattern_match tokens_patterns ''TOKENS_EXTRACTED: 7'' = Some 7"
  by (simp add: tokens_patterns_def match_number_here_def is_space_def is_digit_char_def
      int_of_digits_def)

lemma no_eth_example: "first_pattern_match eth_gained_patterns ''TOKENS_EXTRACTED: 7'' = None"
  by (simp add: eth_gained_patterns_def match_number_here_def)

theorem C6_success_signals_witness:
  "first_pattern_match tokens_patterns ''TOKENS_EXTRACTED: 7'' = Some 7 \<and>
   (case analyze_execution_result
           \<lparr>er_success = True, er_compiled = True, er_output = ''TOKENS_EXTRACTED: 7''\<rparr> 100 of
      Inr a \<Rightarrow> exploit_executed_successfully a
    | Inl e \<Rightarrow> False)"
proof -
  let ?er = "\<lparr>er_success = True, er_compiled = True, er_output = ''TOKENS_EXTRACTED: 7''\<rparr>"
  have quiet: "\<not> (er_success ?er \<and>
        (\<exists>w. first_pattern_match eth_gained_patterns (er_output ?er) = Some w \<and>
             float_overflow (real w / 10 ^ 18)))"
    by (simp add: no_eth_example)
  from C6_success_signals[of ?er 100] quiet
  obtain a where run: "analyze_execution_result ?er 100 = Inr a" by blast
  have "\<exists>n. first_pattern_match tokens_patterns (er_output ?er) = Some n \<and> 0 < n"
    by (simp add: tokens_example)
  with C6_success_signals[of ?er 100 a] run
  have "exploit_executed_successfully a" by simp
  with run tokens_example show ?thesis by simp
qed

text \<open>
  Two outputs in which a signal is present and the analysis still reports no success: the
  marker of changed storage after a harness run that did not succeed, and a positive
  \<open>ETH_EQUIVALENT\<close> amount after a successful run whose \<open>ETH_GAINED\<close> marker reads 0.
\<close>

theorem C6_signal_not_sufficient_counterexample:
  "contains ''EXPLOIT_CAUSED_STATE_CHANGES: true'' ''EXPLOIT_CAUSED_STATE_CHANGES: true'' \<and>
   analyze_execution_result
     \<lparr>er_success = False, er_compiled = True,
      er_output = ''EXPLOIT_CAUSED_STATE_CHANGES: true''\<rparr> 100 = Inr analysis_init \<and>
   search_number ''ETH_EQUIVALENT:'' ''ETH_GAINED: 0 ETH_EQUIVALENT: 5'' = Some 5 \<and>
   analyze_execution_result
     \<lparr>er_success = True, er_compiled = True,
      er_output = ''ETH_GAINED: 0 ETH_EQUIVALENT: 5''\<rparr> 100 = Inr analysis_init \<and>
   \<not> exploit_executed_successfully analysis_init"
  by (simp add: analyze_execution_result_def analysis_init_def analysis_markers_def
      analysis_finish_def eth_gained_patterns_def tokens_patterns_def match_number_here_def
      is_space_def is_digit_char_def int_of_digits_def float_overflow_def Let_def)
section \<open>Properties of the temporary Foundry project\<close>

text \<open>
  C4. The temporary directory is not deleted on every exit path. On a chain without a
  configured RPC URL (137), \<open>_create_foundry_project\<close> has made the directory and run
  \<open>forge init\<close> when the configuration raises; it swallows the exception and returns
  \<open>None\<close>, and \<open>execute\<close> returns its failure result with the directory still there. The same
  happens when \<open>forge init\<close> ends with a non-zero return code.
\<close>

theorem C4_project_dir_left_behind:
  "fst (create_foundry_project working_env polygon_params {}) = None \<and>
   error_message (fst (execution_tool_execute working_env polygon_params {}))
     = Some ''Failed to create Foundry project'' \<and>
   snd (execution_tool_execute working_env polygon_params {}) = {''/tmp/a1_exploit_k3v9''} \<and>
   snd (execution_tool_execute (working_env\<lparr>forge_init := Inr 1\<rparr>)
          (polygon_params\<lparr>p_chain_id := 1\<rparr>) {}) = {''/tmp/a1_exploit_k3v9''}"
  by (simp add: execution_tool_execute_def working_env_def polygon_params_def
      create_foundry_project_def create_foundry_config_def chain_rpc_url_def failure_result_def
      Let_def)

text \<open>
  Once the project has been created, every path through \<open>execute\<close> runs the cleanup: with a
  working \<open>rmtree\<close> the directory is gone when \<open>execute\<close> returns, whether the test run
  returned or raised.
\<close>

lemma execute_removes_created_dir:
  assumes "exploit_code params \<noteq> []" and "foundry_installed env"
    and "create_foundry_project env params dirs = (Some temp_dir, dirs1)"
    and "rmtree_ok env"
  shows "temp_dir \<notin> snd (execution_tool_execute env params dirs)"
  using assms
  by (auto simp: execution_tool_execute_def cleanup_temp_dir_def split: sum.splits)

text \<open>Whenever the creation fails after \<open>mkdtemp\<close> has succeeded, the directory outlives \<open>execute\<close>.\<close>

lemma execute_leaks_after_failed_creation:
  assumes "mkdtemp env = Inr temp_dir"
    and "fst (create_foundry_project env params dirs) = None"
    and "exploit_code params \<noteq> []" and "foundry_installed env"
  shows "temp_dir \<in> snd (execution_tool_execute env params dirs)"
  using assms
  by (auto simp: execution_tool_execute_def create_foundry_project_def Let_def
      split: sum.splits if_splits prod.splits option.splits)


end
